theory Spec2Isabelle
  imports Complex_Main
begin

section \<open>The decimal type (bignumber.js)\<close>

text \<open>
  Every monetary quantity of the services is a \<open>BigNumber\<close> of the bignumber.js library.
  A \<open>BigNumber\<close> is a finite decimal, one of the two infinities, or NaN. Finite values are
  carried here by exact rationals (every finite decimal is one); the sign of zero is not
  modelled. The library's \<open>multipliedBy\<close> and \<open>plus\<close> (here \<open>plus_bn\<close>) are exact: the configuration
  \<open>DECIMAL_PLACES\<close> / \<open>ROUNDING_MODE\<close> of \<open>common/constants.ts\<close> governs division
  (\<open>dividedBy\<close>) only. Comparisons with NaN are false.
\<close>

datatype BigNumber = Fin rat | PosInf | NegInf | NaN

definition DECIMAL_PLACES :: nat where
  "DECIMAL_PLACES = 18"

text \<open>\<open>ROUND_DOWN\<close>: towards zero, at \<open>dp\<close> decimal places.\<close>

definition ROUND_DOWN :: "nat \<Rightarrow> rat \<Rightarrow> rat" where
  "ROUND_DOWN dp x =
     (if 0 \<le> x then of_int \<lfloor>x * 10 ^ dp\<rfloor> / 10 ^ dp
      else of_int \<lceil>x * 10 ^ dp\<rceil> / 10 ^ dp)"

definition signedInf :: "bool \<Rightarrow> BigNumber" where
  "signedInf positive = (if positive then PosInf else NegInf)"

fun multipliedBy :: "BigNumber \<Rightarrow> BigNumber \<Rightarrow> BigNumber" where
  "multipliedBy NaN y = NaN"
| "multipliedBy x NaN = NaN"
| "multipliedBy (Fin a) (Fin b) = Fin (a * b)"
| "multipliedBy (Fin a) PosInf = (if a = 0 then NaN else signedInf (0 < a))"
| "multipliedBy (Fin a) NegInf = (if a = 0 then NaN else signedInf (a < 0))"
| "multipliedBy PosInf (Fin b) = (if b = 0 then NaN else signedInf (0 < b))"
| "multipliedBy NegInf (Fin b) = (if b = 0 then NaN else signedInf (b < 0))"
| "multipliedBy PosInf PosInf = PosInf"
| "multipliedBy PosInf NegInf = NegInf"
| "multipliedBy NegInf PosInf = NegInf"
| "multipliedBy NegInf NegInf = PosInf"

fun plus_bn :: "BigNumber \<Rightarrow> BigNumber \<Rightarrow> BigNumber" where
  "plus_bn NaN y = NaN"
| "plus_bn x NaN = NaN"
| "plus_bn (Fin a) (Fin b) = Fin (a + b)"
| "plus_bn PosInf NegInf = NaN"
| "plus_bn NegInf PosInf = NaN"
| "plus_bn PosInf y = PosInf"
| "plus_bn NegInf y = NegInf"
| "plus_bn (Fin a) y = y"

fun dividedBy :: "BigNumber \<Rightarrow> BigNumber \<Rightarrow> BigNumber" where
  "dividedBy NaN y = NaN"
| "dividedBy x NaN = NaN"
| "dividedBy (Fin a) (Fin b) =
     (if b = 0 then (if a = 0 then NaN else signedInf (0 < a))
      else Fin (ROUND_DOWN DECIMAL_PLACES (a / b)))"
| "dividedBy (Fin a) y = Fin 0"
| "dividedBy PosInf (Fin b) = signedInf (0 \<le> b)"
| "dividedBy NegInf (Fin b) = signedInf (b < 0)"
| "dividedBy x y = NaN"

fun isZero :: "BigNumber \<Rightarrow> bool" where
  "isZero (Fin a) = (a = 0)"
| "isZero x = False"

fun isNaN :: "BigNumber \<Rightarrow> bool" where
  "isNaN NaN = True"
| "isNaN x = False"

fun isGreaterThan :: "BigNumber \<Rightarrow> BigNumber \<Rightarrow> bool" where
  "isGreaterThan NaN y = False"
| "isGreaterThan x NaN = False"
| "isGreaterThan (Fin a) (Fin b) = (b < a)"
| "isGreaterThan PosInf PosInf = False"
| "isGreaterThan PosInf y = True"
| "isGreaterThan x NegInf = (x \<noteq> NegInf)"
| "isGreaterThan x y = False"

fun isLessThanOrEqualTo :: "BigNumber \<Rightarrow> BigNumber \<Rightarrow> bool" where
  "isLessThanOrEqualTo NaN y = False"
| "isLessThanOrEqualTo x NaN = False"
| "isLessThanOrEqualTo x y = (\<not> isGreaterThan x y)"

section \<open>Constants (common/constants.ts)\<close>

definition LEVEL_1 :: BigNumber where "LEVEL_1 = Fin (30 / 100)"
definition LEVEL_2 :: BigNumber where "LEVEL_2 = Fin (3 / 100)"
definition LEVEL_3 :: BigNumber where "LEVEL_3 = Fin (2 / 100)"

definition CASHBACK_RATE :: BigNumber where "CASHBACK_RATE = Fin (10 / 100)"
definition TOTAL_COMMISSION_RATE :: BigNumber where "TOTAL_COMMISSION_RATE = Fin (35 / 100)"
definition TREASURY_RATE :: BigNumber where "TREASURY_RATE = Fin (55 / 100)"

definition FEE_TIERS_BASE :: BigNumber where "FEE_TIERS_BASE = Fin (1 / 100)"
definition FEE_TIERS_REDUCED :: BigNumber where "FEE_TIERS_REDUCED = Fin (5 / 1000)"

definition MAX_REFERRAL_DEPTH :: int where "MAX_REFERRAL_DEPTH = 3"

section \<open>Types and documents (common/types.ts, the schemas)\<close>

datatype FeeTier = BASE | REDUCED
datatype StructureType = KOL_DIRECT | KOL_CUSTOM | WAIVED
datatype Chain = ARBITRUM | SOLANA
datatype Side = BUY | SELL

text \<open>
  The custom commission structure. The user schema stores the three rates as strings
  (\<open>'r = string\<close>); the interface \<open>CustomCommissionStructure\<close> of \<open>common/types.ts\<close>,
  which the rate resolver takes, carries them as \<open>BigNumber\<close>s. An optional field that is
  absent is \<open>None\<close>.
\<close>

record 'r CustomCommissionStructure =
  structType :: StructureType
  level1Rate :: "'r option"
  level2Rate :: "'r option"
  level3Rate :: "'r option"
  feesWaived :: "bool option"
  commissionsWaived :: "bool option"

text \<open>JavaScript truthiness of an optional boolean.\<close>

fun truthy :: "bool option \<Rightarrow> bool" where
  "truthy None = False"
| "truthy (Some b) = b"

section \<open>ReferralService.getCommissionRateForLevel\<close>

text \<open>
  A \<open>BigNumber\<close> is an object, so a rate that is present is truthy whatever its value.
  The \<open>KOL_CUSTOM\<close> case leaves the \<open>switch\<close> with \<open>break\<close> when the requested level has
  no rate, and falls to the standard tiers.
\<close>

definition standardRate :: "int \<Rightarrow> BigNumber" where
  "standardRate level =
     (if level = 1 then LEVEL_1
      else if level = 2 then LEVEL_2
      else if level = 3 then LEVEL_3
      else Fin 0)"

definition getCommissionRateForLevel ::
  "int \<Rightarrow> BigNumber CustomCommissionStructure option \<Rightarrow> BigNumber" where
  "getCommissionRateForLevel level customStructure =
     (case customStructure of
        None \<Rightarrow> standardRate level
      | Some cs \<Rightarrow>
          if truthy (commissionsWaived cs) then Fin 0
          else (case structType cs of
                  KOL_DIRECT \<Rightarrow> (if level = 1 then Fin (50 / 100) else Fin 0)
                | KOL_CUSTOM \<Rightarrow>
                    (case (if level = 1 then level1Rate cs else None) of
                       Some r \<Rightarrow> r
                     | None \<Rightarrow>
                    (case (if level = 2 then level2Rate cs else None) of
                       Some r \<Rightarrow> r
                     | None \<Rightarrow>
                    (case (if level = 3 then level3Rate cs else None) of
                       Some r \<Rightarrow> r
                     | None \<Rightarrow> standardRate level)))
                | WAIVED \<Rightarrow> Fin 0))"

section \<open>The user collection\<close>

text \<open>
  An \<open>ObjectId\<close> is carried by its 24-digit lowercase hexadecimal rendering, which is what
  \<open>toString()\<close> gives and what \<open>findById\<close> accepts back. The \<open>Decimal128\<close> running totals
  are carried by the decimal type above. The collection is the list of its documents, in
  insertion order; the timestamps \<open>createdAt\<close> / \<open>updatedAt\<close> are left out.
\<close>

type_synonym ObjectId = string

record User =
  u_id :: ObjectId
  referralCode :: string
  referrerId :: "ObjectId option"
  directReferrals :: "ObjectId list"
  referralDepth :: nat
  feeTier :: FeeTier
  customCommissionStructure :: "string CustomCommissionStructure option"
  totalXpEarned :: BigNumber
  totalCommissionEarned :: BigNumber
  totalCashbackEarned :: BigNumber
  isActive :: bool

definition findById :: "User list \<Rightarrow> ObjectId \<Rightarrow> User option" where
  "findById users i = find (\<lambda>u. u_id u = i) users"


section \<open>ReferralService.getReferralChain\<close>

record ReferralChain =
  rc_userId :: string
  rc_level :: int
  rc_referralCode :: string

function getReferralChain_loop ::
  "User list \<Rightarrow> User option \<Rightarrow> int \<Rightarrow> ReferralChain list \<Rightarrow> ReferralChain list" where
  "getReferralChain_loop users currentUser level chain =
     (case currentUser of
        None \<Rightarrow> chain
      | Some cu \<Rightarrow>
          (case referrerId cu of
             None \<Rightarrow> chain
           | Some rid \<Rightarrow>
               if level \<le> MAX_REFERRAL_DEPTH then
                 (case findById users rid of
                    None \<Rightarrow> chain
                  | Some referrer \<Rightarrow>
                      getReferralChain_loop users (Some referrer) (level + 1)
                        (chain @ [\<lparr>rc_userId = u_id referrer, rc_level = level,
                                   rc_referralCode = referralCode referrer\<rparr>]))
               else chain))"
  by pat_completeness auto
termination
  by (relation "measure (\<lambda>(users, currentUser, level, chain). nat (MAX_REFERRAL_DEPTH + 1 - level))")
    auto

declare getReferralChain_loop.simps [simp del]

definition getReferralChain :: "User list \<Rightarrow> ObjectId \<Rightarrow> ReferralChain list" where
  "getReferralChain users userId = getReferralChain_loop users (findById users userId) 1 []"

text \<open>
  The walk as the specification words it: follow the parent pointers from the user, stop
  at the root (a user with no parent to go to) or after \<open>n\<close> ancestors.
\<close>

definition parentOf :: "User list \<Rightarrow> ObjectId \<Rightarrow> User option" where
  "parentOf users i =
     (case findById users i of
        None \<Rightarrow> None
      | Some u \<Rightarrow> (case referrerId u of None \<Rightarrow> None | Some rid \<Rightarrow> findById users rid))"

fun ancestorsUpTo :: "nat \<Rightarrow> User list \<Rightarrow> ObjectId \<Rightarrow> User list" where
  "ancestorsUpTo 0 users i = []"
| "ancestorsUpTo (Suc n) users i =
     (case parentOf users i of
        None \<Rightarrow> []
      | Some p \<Rightarrow> p # ancestorsUpTo n users (u_id p))"

definition chainEntry :: "int \<Rightarrow> User \<Rightarrow> ReferralChain" where
  "chainEntry l u = \<lparr>rc_userId = u_id u, rc_level = l, rc_referralCode = referralCode u\<rparr>"

section \<open>ReferralService.registerWithReferral\<close>

datatype error =
    NotFoundException string
  | BadRequestException string
  | ConflictException string
  | MongoServerError string
  | ValidationError string
  | BSONError string

text \<open>
  \<open>calculateReferralDepth\<close> walks the parent pointers with no bound of its own, so it
  returns only when the walk ends: \<open>None\<close> is the walk that never returns.
\<close>

partial_function (option) calculateReferralDepth_loop ::
  "User list \<Rightarrow> User option \<Rightarrow> nat \<Rightarrow> nat option" where
  "calculateReferralDepth_loop users currentUser depth =
     (case currentUser of
        None \<Rightarrow> Some depth
      | Some cu \<Rightarrow>
          (case referrerId cu of
             None \<Rightarrow> Some depth
           | Some rid \<Rightarrow>
               calculateReferralDepth_loop users (findById users rid) (depth + 1)))"


text \<open>
  \<open>new this.userModel({referralCode, referrerId, directReferrals: [], referralDepth})\<close>:
  the other fields take the defaults of the schema.
\<close>

definition newUser :: "ObjectId \<Rightarrow> string \<Rightarrow> ObjectId option \<Rightarrow> nat \<Rightarrow> User" where
  "newUser i code referrer depth =
     \<lparr>u_id = i, referralCode = code, referrerId = referrer, directReferrals = [],
      referralDepth = depth, feeTier = BASE, customCommissionStructure = None,
      totalXpEarned = Fin 0, totalCommissionEarned = Fin 0, totalCashbackEarned = Fin 0,
      isActive = True\<rparr>"


text \<open>\<open>updateOne(filter, update)\<close>: the first document that matches is updated.\<close>

fun updateOne :: "('d \<Rightarrow> bool) \<Rightarrow> ('d \<Rightarrow> 'd) \<Rightarrow> 'd list \<Rightarrow> 'd list" where
  "updateOne P f [] = []"
| "updateOne P f (d # ds) = (if P d then f d # ds else d # updateOne P f ds)"





text \<open>The parent chains of a collection are acyclic: the child-to-parent relation is well-founded.\<close>

definition parentRel :: "User list \<Rightarrow> (ObjectId \<times> ObjectId) set" where
  "parentRel users = {(p, c). \<exists>u. findById users c = Some u \<and> referrerId u = Some p}"

definition acyclicParents :: "User list \<Rightarrow> bool" where
  "acyclicParents users = wf (parentRel users)"

section \<open>ReferralService.getClaimableAmount\<close>

text \<open>
  A commission row. The fields that the service writes with \<open>toString()\<close> of a
  \<open>BigNumber\<close> are carried by that \<open>BigNumber\<close>: the rendering is canonical, one string for
  each value. The claim metadata (\<open>claimedAt\<close>, the Merkle fields) is left out.
\<close>

record Commission =
  c_userId :: ObjectId
  c_sourceUserId :: ObjectId
  c_tradeId :: ObjectId
  c_level :: int
  c_amount :: BigNumber
  c_rate :: BigNumber
  c_tradeVolume :: BigNumber
  c_tradeFee :: BigNumber
  c_token :: string
  c_chain :: Chain
  c_isClaimed :: bool

text \<open>
  The aggregation \<open>$match {userId, isClaimed: false}\<close>, \<open>$group {_id: null, total: $sum}\<close>:
  one group when some row matches, none otherwise.
\<close>

definition aggregateUnclaimed :: "Commission list \<Rightarrow> ObjectId \<Rightarrow> BigNumber list" where
  "aggregateUnclaimed rows userId =
     (case filter (\<lambda>c. c_userId c = userId \<and> \<not> c_isClaimed c) rows of
        [] \<Rightarrow> []
      | m # ms \<Rightarrow> [foldl plus_bn (Fin 0) (map c_amount (m # ms))])"

record Claimable =
  cl_commission :: string
  cl_cashback :: string

text \<open>\<open>toStr\<close> is the \<open>toString()\<close> of a \<open>Decimal128\<close>.\<close>

definition getClaimableAmount ::
  "(BigNumber \<Rightarrow> string) \<Rightarrow> Commission list \<Rightarrow> User list \<Rightarrow> ObjectId \<Rightarrow> Claimable" where
  "getClaimableAmount toStr rows users userId =
     \<lparr>cl_commission =
        (case aggregateUnclaimed rows userId of [] \<Rightarrow> ''0'' | r # rest \<Rightarrow> toStr r),
      cl_cashback =
        (case findById users userId of
           None \<Rightarrow> ''0''
         | Some user \<Rightarrow> toStr (totalCashbackEarned user))\<rparr>"

section \<open>TradeService: the fee distribution\<close>

record CommissionBreakdown =
  cb_level :: int
  cb_userId :: string
  cb_amount :: BigNumber
  cb_rate :: BigNumber

record FeeDistribution =
  traderId :: string
  totalFee :: BigNumber
  cashback :: BigNumber
  commissions :: "CommissionBreakdown list"
  treasury :: BigNumber
  chain :: Chain
  token :: string

definition getFeeRateForTier :: "FeeTier \<Rightarrow> BigNumber" where
  "getFeeRateForTier tier = (case tier of REDUCED \<Rightarrow> FEE_TIERS_REDUCED | _ \<Rightarrow> FEE_TIERS_BASE)"

text \<open>
  The structure handed to the rate resolver: a stored rate that is a non-empty string
  becomes \<open>new BigNumber(rate)\<close>, an absent or empty one \<open>undefined\<close>. \<open>bn\<close> is the
  \<open>BigNumber\<close> constructor on strings, which comes from the library.
\<close>

definition rateOfString :: "(string \<Rightarrow> BigNumber) \<Rightarrow> string option \<Rightarrow> BigNumber option" where
  "rateOfString bn r =
     (case r of None \<Rightarrow> None | Some str \<Rightarrow> if str = [] then None else Some (bn str))"

definition toCustomStructure ::
  "(string \<Rightarrow> BigNumber) \<Rightarrow> string CustomCommissionStructure option
     \<Rightarrow> BigNumber CustomCommissionStructure option" where
  "toCustomStructure bn stored =
     (case stored of
        None \<Rightarrow> None
      | Some cs \<Rightarrow>
          Some \<lparr>structType = structType cs,
                level1Rate = rateOfString bn (level1Rate cs),
                level2Rate = rateOfString bn (level2Rate cs),
                level3Rate = rateOfString bn (level3Rate cs),
                feesWaived = feesWaived cs,
                commissionsWaived = commissionsWaived cs\<rparr>)"

text \<open>The body of the loop of \<open>calculateCommissionBreakdown\<close>, for one entry of the chain.\<close>

definition commissionFor ::
  "(string \<Rightarrow> BigNumber) \<Rightarrow> User list \<Rightarrow> BigNumber \<Rightarrow> ReferralChain
     \<Rightarrow> CommissionBreakdown list" where
  "commissionFor bn users fee referrer =
     (case findById users (rc_userId referrer) of
        None \<Rightarrow> []
      | Some referrerUser \<Rightarrow>
          (let rate = getCommissionRateForLevel (rc_level referrer)
                        (toCustomStructure bn (customCommissionStructure referrerUser))
           in if isGreaterThan rate (Fin 0) then
                [\<lparr>cb_level = rc_level referrer, cb_userId = rc_userId referrer,
                  cb_amount = multipliedBy fee rate, cb_rate = rate\<rparr>]
              else []))"

fun calculateCommissionBreakdown_loop ::
  "(string \<Rightarrow> BigNumber) \<Rightarrow> User list \<Rightarrow> BigNumber \<Rightarrow> ReferralChain list
     \<Rightarrow> CommissionBreakdown list \<Rightarrow> CommissionBreakdown list" where
  "calculateCommissionBreakdown_loop bn users fee [] acc = acc"
| "calculateCommissionBreakdown_loop bn users fee (referrer # rest) acc =
     calculateCommissionBreakdown_loop bn users fee rest (acc @ commissionFor bn users fee referrer)"

definition calculateCommissionBreakdown ::
  "(string \<Rightarrow> BigNumber) \<Rightarrow> User list \<Rightarrow> ObjectId \<Rightarrow> BigNumber \<Rightarrow> CommissionBreakdown list" where
  "calculateCommissionBreakdown bn users trader fee =
     calculateCommissionBreakdown_loop bn users fee (getReferralChain users trader) []"

definition isFeesWaived :: "User \<Rightarrow> bool" where
  "isFeesWaived user =
     (case customCommissionStructure user of
        None \<Rightarrow> False
      | Some cs \<Rightarrow> (case feesWaived cs of None \<Rightarrow> False | Some b \<Rightarrow> b))"

definition calculateFeeDistribution ::
  "(string \<Rightarrow> BigNumber) \<Rightarrow> User list \<Rightarrow> User \<Rightarrow> BigNumber \<Rightarrow> Chain \<Rightarrow> string
     \<Rightarrow> FeeDistribution" where
  "calculateFeeDistribution bn users user volume ch tok =
     (let fee = (if isFeesWaived user then Fin 0
                 else multipliedBy volume (getFeeRateForTier (feeTier user)))
      in if isZero fee then
           \<lparr>traderId = u_id user, totalFee = fee, cashback = Fin 0, commissions = [],
            treasury = Fin 0, chain = ch, token = tok\<rparr>
         else
           \<lparr>traderId = u_id user, totalFee = fee,
            cashback = multipliedBy fee CASHBACK_RATE,
            commissions = calculateCommissionBreakdown bn users (u_id user) fee,
            treasury = multipliedBy fee TREASURY_RATE, chain = ch, token = tok\<rparr>)"

section \<open>TradeService.processTrade\<close>

text \<open>
  A trade document: \<open>volume\<close> is the string of the request, the other amounts are
  written with \<open>toString()\<close> and carried by their value.
\<close>

record Trade =
  t_id :: ObjectId
  t_userId :: ObjectId
  t_volume :: string
  t_feeRate :: BigNumber
  t_totalFee :: BigNumber
  t_cashbackAmount :: BigNumber
  t_treasuryAmount :: BigNumber
  t_totalCommissions :: BigNumber
  t_token :: string
  t_chain :: Chain
  t_side :: Side
  t_commissionsDistributed :: bool
  t_distributedAt :: "nat option"

text \<open>
  The writes that reach the database, in the order in which the service awaits them.
\<close>

datatype Write =
    TradeSaved ObjectId bool
  | CommissionsInserted "Commission list"
  | CommissionIncremented ObjectId BigNumber
  | CashbackIncremented ObjectId BigNumber

record Store =
  userModel :: "User list"
  tradeModel :: "Trade list"
  commissionModel :: "Commission list"
  journal :: "Write list"

definition isHexDigit :: "char \<Rightarrow> bool" where
  "isHexDigit c = (c \<in> set ''0123456789abcdef'')"

text \<open>
  \<open>Types.ObjectId.isValid(id) && new Types.ObjectId(id).toString() === id\<close>: the strings
  that are their own rendering, 24 lowercase hexadecimal digits.
\<close>

definition isValidObjectId :: "string \<Rightarrow> bool" where
  "isValidObjectId i = (length i = 24 \<and> list_all isHexDigit i)"

text \<open>
  The first \<open>trade.save()\<close> validates the document and inserts it. The strings of the request
  are \<open>required\<close> in the schema, which an empty string does not meet; \<open>_id\<close> is unique.
\<close>

definition insertTrade :: "Store \<Rightarrow> Trade \<Rightarrow> error + Store" where
  "insertTrade st trade =
     (if t_volume trade = [] then Inl (ValidationError ''volume'')
      else if t_token trade = [] then Inl (ValidationError ''token'')
      else if list_ex (\<lambda>t. t_id t = t_id trade) (tradeModel st) then
        Inl (MongoServerError ''_id'')
      else Inr (st\<lparr>tradeModel := tradeModel st @ [trade],
                   journal := journal st @ [TradeSaved (t_id trade) (t_commissionsDistributed trade)]\<rparr>))"

text \<open>A later \<open>trade.save()\<close> writes the document back.\<close>

definition saveTrade :: "Store \<Rightarrow> Trade \<Rightarrow> Store" where
  "saveTrade st trade =
     st\<lparr>tradeModel := updateOne (\<lambda>t. t_id t = t_id trade) (\<lambda>t. trade) (tradeModel st),
        journal := journal st @ [TradeSaved (t_id trade) (t_commissionsDistributed trade)]\<rparr>"

definition insertMany :: "Store \<Rightarrow> Commission list \<Rightarrow> Store" where
  "insertMany st docs =
     st\<lparr>commissionModel := commissionModel st @ docs,
        journal := journal st @ [CommissionsInserted docs]\<rparr>"

text \<open>
  \<open>$inc\<close> of \<open>totalCommissionEarned\<close> and \<open>totalXpEarned\<close> by the same amount. The sum
  that the database makes is carried by the exact one.
\<close>

definition incCommission :: "Store \<Rightarrow> ObjectId \<Rightarrow> BigNumber \<Rightarrow> Store" where
  "incCommission st i amount =
     st\<lparr>userModel :=
          updateOne (\<lambda>u. u_id u = i)
            (\<lambda>u. u\<lparr>totalCommissionEarned := plus_bn (totalCommissionEarned u) amount,
                   totalXpEarned := plus_bn (totalXpEarned u) amount\<rparr>)
            (userModel st),
        journal := journal st @ [CommissionIncremented i amount]\<rparr>"

definition commissionDoc :: "ObjectId \<Rightarrow> ObjectId \<Rightarrow> FeeDistribution \<Rightarrow> CommissionBreakdown \<Rightarrow> Commission" where
  "commissionDoc tradeId sourceUserId distribution comm =
     \<lparr>c_userId = cb_userId comm, c_sourceUserId = sourceUserId, c_tradeId = tradeId,
      c_level = cb_level comm, c_amount = cb_amount comm, c_rate = cb_rate comm,
      c_tradeVolume = dividedBy (totalFee distribution) (getFeeRateForTier BASE),
      c_tradeFee = totalFee distribution, c_token = token distribution,
      c_chain = chain distribution, c_isClaimed = False\<rparr>"

text \<open>
  The loop over the commissions: \<open>Decimal128.fromString(comm.amount.toString())\<close>, then the
  increment. \<open>dec\<close> is that conversion, which comes from the library: \<open>None\<close> when it throws
  (a value that a \<open>Decimal128\<close> cannot hold). The writes made before a throw stay.
\<close>

fun incrementAll ::
  "(BigNumber \<Rightarrow> BigNumber option) \<Rightarrow> Store \<Rightarrow> CommissionBreakdown list \<Rightarrow> error option \<times> Store" where
  "incrementAll dec st [] = (None, st)"
| "incrementAll dec st (comm # rest) =
     (case dec (cb_amount comm) of
        None \<Rightarrow> (Some (BSONError ''Decimal128''), st)
      | Some amount \<Rightarrow> incrementAll dec (incCommission st (cb_userId comm) amount) rest)"

definition distributeCommissions ::
  "(BigNumber \<Rightarrow> BigNumber option) \<Rightarrow> Store \<Rightarrow> ObjectId \<Rightarrow> ObjectId \<Rightarrow> FeeDistribution
     \<Rightarrow> error option \<times> Store" where
  "distributeCommissions dec st tradeId sourceUserId distribution =
     (let commissionDocs = map (commissionDoc tradeId sourceUserId distribution)
                             (commissions distribution);
          st1 = (if 0 < length commissionDocs then insertMany st commissionDocs else st)
      in incrementAll dec st1 (commissions distribution))"

text \<open>\<open>$inc\<close> of \<open>totalCashbackEarned\<close> and \<open>totalXpEarned\<close> by the cashback.\<close>

definition updateUserStats ::
  "(BigNumber \<Rightarrow> BigNumber option) \<Rightarrow> Store \<Rightarrow> ObjectId \<Rightarrow> FeeDistribution
     \<Rightarrow> error option \<times> Store" where
  "updateUserStats dec st i distribution =
     (case dec (cashback distribution) of
        None \<Rightarrow> (Some (BSONError ''Decimal128''), st)
      | Some cashbackAmount \<Rightarrow>
          (None,
           st\<lparr>userModel :=
                updateOne (\<lambda>u. u_id u = i)
                  (\<lambda>u. u\<lparr>totalCashbackEarned := plus_bn (totalCashbackEarned u) cashbackAmount,
                         totalXpEarned := plus_bn (totalXpEarned u) cashbackAmount\<rparr>)
                  (userModel st),
              journal := journal st @ [CashbackIncremented i cashbackAmount]\<rparr>))"

text \<open>The \<open>reduce\<close> that sums the commission amounts of a distribution.\<close>

definition sumCommissions :: "CommissionBreakdown list \<Rightarrow> BigNumber" where
  "sumCommissions cs = foldl (\<lambda>sum c. plus_bn sum (cb_amount c)) (Fin 0) cs"

definition newTrade ::
  "ObjectId \<Rightarrow> User \<Rightarrow> string \<Rightarrow> FeeDistribution \<Rightarrow> string \<Rightarrow> Chain \<Rightarrow> Side \<Rightarrow> Trade" where
  "newTrade tradeId user volume feeDistribution tok ch side =
     \<lparr>t_id = tradeId, t_userId = u_id user, t_volume = volume,
      t_feeRate = getFeeRateForTier (feeTier user),
      t_totalFee = totalFee feeDistribution,
      t_cashbackAmount = cashback feeDistribution,
      t_treasuryAmount = treasury feeDistribution,
      t_totalCommissions = sumCommissions (commissions feeDistribution),
      t_token = tok, t_chain = ch, t_side = side,
      t_commissionsDistributed = False, t_distributedAt = None\<rparr>"

text \<open>
  \<open>tradeId\<close> is the identifier the driver gives the new trade and \<open>now\<close> the clock at the
  second save; both come from outside the service. The store that is returned with an
  error holds the writes made before it.
\<close>

definition processTrade ::
  "(string \<Rightarrow> BigNumber) \<Rightarrow> (BigNumber \<Rightarrow> BigNumber option) \<Rightarrow> ObjectId \<Rightarrow> nat \<Rightarrow> Store
     \<Rightarrow> string \<Rightarrow> string \<Rightarrow> string \<Rightarrow> Side \<Rightarrow> Chain
     \<Rightarrow> (error + Trade \<times> FeeDistribution) \<times> Store" where
  "processTrade bn dec tradeId now st userId volume tok side ch =
     (if \<not> isValidObjectId userId then
        (Inl (BadRequestException ''Invalid user ID format''), st)
      else
        (case findById (userModel st) userId of
           None \<Rightarrow> (Inl (NotFoundException ''User not found''), st)
         | Some user \<Rightarrow>
             if isNaN (bn volume) \<or> isLessThanOrEqualTo (bn volume) (Fin 0) then
               (Inl (BadRequestException ''Invalid trade volume''), st)
             else
               (let feeDistribution =
                      calculateFeeDistribution bn (userModel st) user (bn volume) ch tok;
                    trade = newTrade tradeId user volume feeDistribution tok ch side
                in case insertTrade st trade of
                     Inl e \<Rightarrow> (Inl e, st)
                   | Inr st1 \<Rightarrow>
                       (case distributeCommissions dec st1 (t_id trade) (u_id user)
                               feeDistribution of
                          (Some e, st2) \<Rightarrow> (Inl e, st2)
                        | (None, st2) \<Rightarrow>
                            (let marked = trade\<lparr>t_commissionsDistributed := True,
                                                 t_distributedAt := Some now\<rparr>;
                                 st3 = saveTrade st2 marked
                             in case updateUserStats dec st3 (u_id user) feeDistribution of
                                  (Some e, st4) \<Rightarrow> (Inl e, st4)
                                | (None, st4) \<Rightarrow> (Inr (marked, feeDistribution), st4))))))"

section \<open>Notions of the specification\<close>

text \<open>A value truncated (rounded towards zero) to 18 decimal places.\<close>

fun truncateDP :: "BigNumber \<Rightarrow> BigNumber" where
  "truncateDP (Fin a) = Fin (ROUND_DOWN DECIMAL_PLACES a)"
| "truncateDP x = x"

text \<open>
  The rate resolved for an entry of the chain: the resolver at the entry's level and the
  ancestor's custom structure.
\<close>

definition ancestorRate :: "(string \<Rightarrow> BigNumber) \<Rightarrow> User list \<Rightarrow> ReferralChain \<Rightarrow> BigNumber" where
  "ancestorRate bn users r =
     (case findById users (rc_userId r) of
        None \<Rightarrow> Fin 0
      | Some a \<Rightarrow>
          getCommissionRateForLevel (rc_level r)
            (toCustomStructure bn (customCommissionStructure a)))"

text \<open>The entry \<open>{level, userId, amount = totalFee \<times> rate, rate}\<close> of an ancestor.\<close>

definition commissionEntry ::
  "(string \<Rightarrow> BigNumber) \<Rightarrow> User list \<Rightarrow> BigNumber \<Rightarrow> ReferralChain \<Rightarrow> CommissionBreakdown" where
  "commissionEntry bn users fee r =
     \<lparr>cb_level = rc_level r, cb_userId = rc_userId r,
      cb_amount = multipliedBy fee (ancestorRate bn users r),
      cb_rate = ancestorRate bn users r\<rparr>"

text \<open>The sum of the rates of the commissions of a distribution.\<close>

definition sumRates :: "CommissionBreakdown list \<Rightarrow> BigNumber" where
  "sumRates cs = foldl (\<lambda>sum c. plus_bn sum (cb_rate c)) (Fin 0) cs"

text \<open>
  An ancestor with no rate of its own: no custom structure, or one that is waived. Its
  resolved rate is the standard tier or 0.
\<close>

definition standardOrWaived :: "User \<Rightarrow> bool" where
  "standardOrWaived a =
     (case customCommissionStructure a of
        None \<Rightarrow> True
      | Some cs \<Rightarrow> truthy (commissionsWaived cs) \<or> structType cs = WAIVED)"

text \<open>
  The rate of an ancestor as the specification words it, on the structure as the user
  document stores it. The rate stored for a level is the \<open>level{N}Rate\<close> of that level, a
  decimal string; it is present when it is a string that is not empty. Rule 1: a structure
  with \<open>commissionsWaived\<close> true gives 0. Rule 2: \<open>KOL_DIRECT\<close> gives 0.50 at level 1 and 0
  elsewhere, \<open>KOL_CUSTOM\<close> gives the decimal that the stored rate of the level denotes when
  it is present, \<open>WAIVED\<close> gives 0. Rule 3, for no structure and for a \<open>KOL_CUSTOM\<close> one
  with no rate at the level: 0.30, 0.03, 0.02 at the levels 1, 2, 3 and 0 at any other.
\<close>

definition storedRate :: "int \<Rightarrow> string CustomCommissionStructure \<Rightarrow> string option" where
  "storedRate level cs =
     (if level = 1 then level1Rate cs
      else if level = 2 then level2Rate cs
      else if level = 3 then level3Rate cs
      else None)"

definition rateForLevel ::
  "(string \<Rightarrow> BigNumber) \<Rightarrow> int \<Rightarrow> string CustomCommissionStructure option \<Rightarrow> BigNumber" where
  "rateForLevel bn level stored =
     (let standard = (if level = 1 then Fin (30 / 100)
                      else if level = 2 then Fin (3 / 100)
                      else if level = 3 then Fin (2 / 100)
                      else Fin 0)
      in case stored of
           None \<Rightarrow> standard
         | Some cs \<Rightarrow>
             if commissionsWaived cs = Some True then Fin 0
             else (case structType cs of
                     KOL_DIRECT \<Rightarrow> if level = 1 then Fin (50 / 100) else Fin 0
                   | KOL_CUSTOM \<Rightarrow>
                       (case storedRate level cs of
                          None \<Rightarrow> standard
                        | Some str \<Rightarrow> if str = [] then standard else bn str)
                   | WAIVED \<Rightarrow> Fin 0))"

text \<open>
  The entry \<open>{level, userId, amount = totalFee \<times> rate, rate}\<close> of the ancestor \<open>a\<close> at a
  level, with the rate above.
\<close>

definition ancestorEntry ::
  "(string \<Rightarrow> BigNumber) \<Rightarrow> BigNumber \<Rightarrow> int \<Rightarrow> User \<Rightarrow> CommissionBreakdown" where
  "ancestorEntry bn fee level a =
     \<lparr>cb_level = level, cb_userId = u_id a,
      cb_amount = multipliedBy fee (rateForLevel bn level (customCommissionStructure a)),
      cb_rate = rateForLevel bn level (customCommissionStructure a)\<rparr>"

text \<open>
  The depths of a collection are consistent: the identifiers are unique, a root has depth
  0 and every other user has a parent in the collection and the depth of that parent
  plus 1.
\<close>

definition depthsConsistent :: "User list \<Rightarrow> bool" where
  "depthsConsistent users =
     (distinct (map u_id users)
      \<and> list_all (\<lambda>u. case referrerId u of
                         None \<Rightarrow> referralDepth u = 0
                       | Some p \<Rightarrow>
                           (case findById users p of
                              None \<Rightarrow> False
                            | Some pu \<Rightarrow> referralDepth u = referralDepth pu + 1)) users)"


text \<open>
  The running sums of the commission amounts and of their rates, for a total fee \<open>t\<close>:
  the first is \<open>t\<close> times the second, or both are infinite.
\<close>

definition paired :: "rat \<Rightarrow> BigNumber \<Rightarrow> BigNumber \<Rightarrow> bool" where
  "paired t A B = ((\<exists>R. A = Fin (t * R) \<and> B = Fin R) \<or> (A = PosInf \<and> B = PosInf))"

section \<open>Example data\<close>

definition idA :: ObjectId where "idA = ''aaaaaaaaaaaaaaaaaaaaaaaa''"
definition idB :: ObjectId where "idB = ''bbbbbbbbbbbbbbbbbbbbbbbb''"
definition idC :: ObjectId where "idC = ''cccccccccccccccccccccccc''"
definition idD :: ObjectId where "idD = ''dddddddddddddddddddddddd''"
definition idE :: ObjectId where "idE = ''eeeeeeeeeeeeeeeeeeeeeeee''"
definition idT :: ObjectId where "idT = ''111111111111111111111111''"

text \<open>The chain A, B, C, D: A is a root, each of the others was registered under the one before.\<close>

definition userA :: User where
  "userA = (newUser idA ''AAAAAAAA'' None 0)\<lparr>directReferrals := [idB]\<rparr>"

definition userB :: User where
  "userB = (newUser idB ''BBBBBBBB'' (Some idA) 1)\<lparr>directReferrals := [idC]\<rparr>"

definition userC :: User where
  "userC = (newUser idC ''CCCCCCCC'' (Some idB) 2)\<lparr>directReferrals := [idD]\<rparr>"

definition userD :: User where
  "userD = newUser idD ''DDDDDDDD'' (Some idC) 3"

definition exampleUsers :: "User list" where
  "exampleUsers = [userA, userB, userC, userD]"

text \<open>A is a root with the \<open>KOL_DIRECT\<close> structure, B was registered under A.\<close>

definition kolA :: User where
  "kolA = (newUser idA ''AAAAAAAA'' None 0)
            \<lparr>directReferrals := [idB],
             customCommissionStructure :=
               Some \<lparr>structType = KOL_DIRECT, level1Rate = None, level2Rate = None,
                     level3Rate = None, feesWaived = None, commissionsWaived = None\<rparr>\<rparr>"

definition kolB :: User where
  "kolB = newUser idB ''BBBBBBBB'' (Some idA) 1"

definition exampleKolUsers :: "User list" where
  "exampleKolUsers = [kolA, kolB]"

text \<open>A is a root, B was registered under A and has the \<open>REDUCED\<close> fee tier.\<close>

definition reducedB :: User where
  "reducedB = (newUser idB ''BBBBBBBB'' (Some idA) 1)\<lparr>feeTier := REDUCED\<rparr>"

definition exampleReducedUsers :: "User list" where
  "exampleReducedUsers = [userA, reducedB]"

text \<open>A is a root, B was registered under A and has its fees waived.\<close>

definition waivedB :: User where
  "waivedB = (newUser idB ''BBBBBBBB'' (Some idA) 1)
               \<lparr>customCommissionStructure :=
                  Some \<lparr>structType = WAIVED, level1Rate = None, level2Rate = None,
                        level3Rate = None, feesWaived = Some True, commissionsWaived = None\<rparr>\<rparr>"

definition exampleWaivedUsers :: "User list" where
  "exampleWaivedUsers = [userA, waivedB]"

text \<open>
  The chain A, B, C, D again, where C has the \<open>KOL_CUSTOM\<close> structure with the rate 0.4 at
  level 1 and B the \<open>KOL_CUSTOM\<close> structure with the rate 0 at level 2.
\<close>

definition customB :: User where
  "customB = (newUser idB ''BBBBBBBB'' (Some idA) 1)
               \<lparr>directReferrals := [idC],
                customCommissionStructure :=
                  Some \<lparr>structType = KOL_CUSTOM, level1Rate = None, level2Rate = Some ''0'',
                        level3Rate = None, feesWaived = None, commissionsWaived = None\<rparr>\<rparr>"

definition customC :: User where
  "customC = (newUser idC ''CCCCCCCC'' (Some idB) 2)
               \<lparr>directReferrals := [idD],
                customCommissionStructure :=
                  Some \<lparr>structType = KOL_CUSTOM, level1Rate = Some ''0.4'', level2Rate = None,
                        level3Rate = None, feesWaived = None, commissionsWaived = None\<rparr>\<rparr>"

definition exampleCustomUsers :: "User list" where
  "exampleCustomUsers = [userA, customB, customC, userD]"

text \<open>The \<open>BigNumber\<close> constructor on the two rates stored in that collection.\<close>

definition bnRates :: "string \<Rightarrow> BigNumber" where
  "bnRates str =
     (if str = ''0.4'' then Fin (4 / 10) else if str = ''0'' then Fin 0 else NaN)"

text \<open>An unclaimed commission row of A.\<close>

definition exampleRow :: Commission where
  "exampleRow =
     \<lparr>c_userId = idA, c_sourceUserId = idB, c_tradeId = idT, c_level = 1, c_amount = Fin 30,
      c_rate = Fin (3 / 10), c_tradeVolume = Fin 10000, c_tradeFee = Fin 100,
      c_token = ''BTC'', c_chain = ARBITRUM, c_isClaimed = False\<rparr>"

text \<open>A store with the given users, no trade and no commission row yet.\<close>

definition exampleStore :: "User list \<Rightarrow> Store" where
  "exampleStore users = \<lparr>userModel = users, tradeModel = [], commissionModel = [], journal = []\<rparr>"

text \<open>The \<open>BigNumber\<close> constructor on the one string that the examples parse.\<close>

definition bnExample :: "string \<Rightarrow> BigNumber" where
  "bnExample str = (if str = ''10000'' then Fin 10000 else NaN)"

section \<open>The rate resolver\<close>

text \<open>
  C3. The resolved rate is 0 whenever \<open>commissionsWaived\<close> is true, whatever the type;
  otherwise \<open>KOL_DIRECT\<close> gives 0.50 at level 1 and 0 at any other level, \<open>KOL_CUSTOM\<close>
  gives the structure's rate for the requested level when it is present and the standard
  tier otherwise, \<open>WAIVED\<close> gives 0; with no custom structure the standard tiers apply:
  0.30, 0.03 and 0.02 at levels 1, 2 and 3, and 0 at any other level.
\<close>

theorem getCommissionRateForLevel_cases:
  "(truthy (commissionsWaived cs) \<longrightarrow> getCommissionRateForLevel level (Some cs) = Fin 0)
   \<and> (\<not> truthy (commissionsWaived cs) \<longrightarrow>
        (structType cs = KOL_DIRECT \<longrightarrow>
           getCommissionRateForLevel level (Some cs) = (if level = 1 then Fin (1 / 2) else Fin 0))
      \<and> (structType cs = KOL_CUSTOM \<longrightarrow>
           getCommissionRateForLevel level (Some cs) =
             (case (if level = 1 then level1Rate cs
                    else if level = 2 then level2Rate cs
                    else if level = 3 then level3Rate cs
                    else None) of
                Some r \<Rightarrow> r
              | None \<Rightarrow> getCommissionRateForLevel level None))
      \<and> (structType cs = WAIVED \<longrightarrow> getCommissionRateForLevel level (Some cs) = Fin 0))
   \<and> getCommissionRateForLevel level None =
        (if level = 1 then Fin (3 / 10)
         else if level = 2 then Fin (3 / 100)
         else if level = 3 then Fin (2 / 100)
         else Fin 0)"
  by (auto simp: getCommissionRateForLevel_def standardRate_def LEVEL_1_def LEVEL_2_def
      LEVEL_3_def split: option.splits)

theorem getCommissionRateForLevel_cases_witness:
  "getCommissionRateForLevel 1
     (Some \<lparr>structType = KOL_DIRECT, level1Rate = None, level2Rate = None, level3Rate = None,
            feesWaived = None, commissionsWaived = Some True\<rparr>) = Fin 0
   \<and> getCommissionRateForLevel 1
     (Some \<lparr>structType = KOL_DIRECT, level1Rate = None, level2Rate = None, level3Rate = None,
            feesWaived = None, commissionsWaived = None\<rparr>) = Fin (1 / 2)
   \<and> getCommissionRateForLevel 2
     (Some \<lparr>structType = KOL_CUSTOM, level1Rate = Some (Fin (2 / 5)), level2Rate = None,
            level3Rate = None, feesWaived = None, commissionsWaived = None\<rparr>) = Fin (3 / 100)
   \<and> getCommissionRateForLevel 1
     (Some \<lparr>structType = KOL_CUSTOM, level1Rate = Some (Fin (2 / 5)), level2Rate = None,
            level3Rate = None, feesWaived = None, commissionsWaived = None\<rparr>) = Fin (2 / 5)
   \<and> getCommissionRateForLevel 3
     (Some \<lparr>structType = WAIVED, level1Rate = None, level2Rate = None, level3Rate = None,
            feesWaived = None, commissionsWaived = None\<rparr>) = Fin 0"
  using
    getCommissionRateForLevel_cases [of "\<lparr>structType = KOL_DIRECT, level1Rate = None,
      level2Rate = None, level3Rate = None, feesWaived = None, commissionsWaived = Some True\<rparr>" 1]
    getCommissionRateForLevel_cases [of "\<lparr>structType = KOL_DIRECT, level1Rate = None,
      level2Rate = None, level3Rate = None, feesWaived = None, commissionsWaived = None\<rparr>" 1]
    getCommissionRateForLevel_cases [of "\<lparr>structType = KOL_CUSTOM, level1Rate = Some (Fin (2 / 5)),
      level2Rate = None, level3Rate = None, feesWaived = None, commissionsWaived = None\<rparr>" 2]
    getCommissionRateForLevel_cases [of "\<lparr>structType = KOL_CUSTOM, level1Rate = Some (Fin (2 / 5)),
      level2Rate = None, level3Rate = None, feesWaived = None, commissionsWaived = None\<rparr>" 1]
    getCommissionRateForLevel_cases [of "\<lparr>structType = WAIVED, level1Rate = None,
      level2Rate = None, level3Rate = None, feesWaived = None, commissionsWaived = None\<rparr>" 3]
  by simp

section \<open>The ancestor chain\<close>

lemma findById_Some:
  "findById users i = Some u \<Longrightarrow> u_id u = i \<and> findById users (u_id u) = Some u"
  by (auto simp: findById_def find_Some_iff)

lemma findById_in_set: "findById users i = Some u \<Longrightarrow> u \<in> set users"
  by (auto simp: findById_def find_Some_iff)

text \<open>
  The loop appends to the chain the ancestors that the parent pointers give, numbered from
  the current level; \<open>n\<close> is the number of levels left.
\<close>

lemma getReferralChain_loop_ancestors:
  "level + int n = 4 \<Longrightarrow> cur = findById users i \<Longrightarrow>
   getReferralChain_loop users cur level acc =
     acc @ map (\<lambda>(k, u). chainEntry (level + int k) u) (enumerate 0 (ancestorsUpTo n users i))"
proof (induction n arbitrary: level cur i acc)
  case 0
  then show ?case
    by (subst getReferralChain_loop.simps) (simp add: MAX_REFERRAL_DEPTH_def split: option.splits)
next
  case (Suc n)
  show ?case
  proof (cases "parentOf users i")
    case None
    then show ?thesis using Suc.prems
      by (subst getReferralChain_loop.simps) (auto simp: parentOf_def split: option.splits)
  next
    case (Some p)
    then obtain u rid where u: "findById users i = Some u" "referrerId u = Some rid"
      "findById users rid = Some p"
      by (auto simp: parentOf_def split: option.splits)
    have p: "findById users (u_id p) = Some p"
      using u(3) findById_Some by blast
    have le: "level \<le> MAX_REFERRAL_DEPTH"
      using Suc.prems(1) by (simp add: MAX_REFERRAL_DEPTH_def)
    have IH: "getReferralChain_loop users (Some p) (level + 1) (acc @ [chainEntry level p]) =
        (acc @ [chainEntry level p]) @
        map (\<lambda>(k, u). chainEntry (level + 1 + int k) u)
          (enumerate 0 (ancestorsUpTo n users (u_id p)))"
      using Suc.IH [of "level + 1" "Some p" "u_id p"] Suc.prems(1) p by simp
    have "getReferralChain_loop users cur level acc =
        getReferralChain_loop users (Some p) (level + 1) (acc @ [chainEntry level p])"
      using Suc.prems(2) u le
      by (subst getReferralChain_loop.simps) (simp add: chainEntry_def)
    then show ?thesis using Some IH
      by (simp add: enumerate_Suc_eq [of 0] split_def comp_def algebra_simps)
  qed
qed

lemma getReferralChain_ancestors:
  "getReferralChain users userId =
     map (\<lambda>(k, u). chainEntry (1 + int k) u) (enumerate 0 (ancestorsUpTo 3 users userId))"
  unfolding getReferralChain_def
  using getReferralChain_loop_ancestors [of 1 3 "findById users userId" users userId "[]"]
  by simp

lemma length_ancestorsUpTo: "length (ancestorsUpTo n users i) \<le> n"
  by (induction n arbitrary: i) (auto split: option.splits)

lemma short_list:
  assumes "length xs \<le> 3"
  obtains "xs = []" | a where "xs = [a]" | a b where "xs = [a, b]" | a b c where "xs = [a, b, c]"
  using assms by (auto simp: le_Suc_eq length_Suc_conv numeral_3_eq_3)

lemma entries_levels:
  "map rc_level (map (\<lambda>(k, u). chainEntry (1 + int k) u) (enumerate 0 xs)) =
     map int [1..<Suc (length xs)]"
proof (rule nth_equalityI)
  show "length (map rc_level (map (\<lambda>(k, u). chainEntry (1 + int k) u) (enumerate 0 xs))) =
      length (map int [1..<Suc (length xs)])"
    by (simp del: upt_Suc)
next
  fix i
  assume "i < length (map rc_level (map (\<lambda>(k, u). chainEntry (1 + int k) u) (enumerate 0 xs)))"
  then have i: "i < length xs" by simp
  then have "[1..<Suc (length xs)] ! i = 1 + i" by (simp del: upt_Suc)
  then show "map rc_level (map (\<lambda>(k, u). chainEntry (1 + int k) u) (enumerate 0 xs)) ! i =
      map int [1..<Suc (length xs)] ! i"
    using i by (simp add: nth_enumerate_eq chainEntry_def del: upt_Suc)
qed

lemma entries_ids:
  "map rc_userId (map (\<lambda>(k, u). chainEntry (l + int k) u) (enumerate 0 xs)) = map u_id xs"
  by (rule nth_equalityI) (simp_all add: nth_enumerate_eq chainEntry_def)

text \<open>
  C8. For every user the chain has at most 3 entries, entry \<open>i\<close> (from 0) has level
  \<open>i + 1\<close>, and the entries are the ancestors that the parent pointers give, up to the root
  or up to 3 of them, whichever comes first.
\<close>

theorem getReferralChain_bounded:
  "length (getReferralChain users userId) \<le> 3
   \<and> map rc_level (getReferralChain users userId) =
       map int [1..<Suc (length (getReferralChain users userId))]
   \<and> map rc_userId (getReferralChain users userId) = map u_id (ancestorsUpTo 3 users userId)"
proof -
  let ?as = "ancestorsUpTo 3 users userId"
  have len: "length (getReferralChain users userId) = length ?as"
    by (simp add: getReferralChain_ancestors)
  have l3: "length ?as \<le> 3"
    by (rule length_ancestorsUpTo)
  have lv: "map rc_level (getReferralChain users userId) = map int [1..<Suc (length ?as)]"
    unfolding getReferralChain_ancestors using entries_levels [of ?as] by simp
  have ids: "map rc_userId (getReferralChain users userId) = map u_id ?as"
    unfolding getReferralChain_ancestors by (rule entries_ids)
  show ?thesis using len l3 lv ids by simp
qed

lemma ancestors_example: "map u_id (ancestorsUpTo 3 exampleUsers idD) = [idC, idB, idA]"
  by (simp add: eval_nat_numeral parentOf_def findById_def exampleUsers_def userA_def userB_def
      userC_def userD_def newUser_def idA_def idB_def idC_def idD_def)

theorem getReferralChain_bounded_witness:
  "map rc_userId (getReferralChain exampleUsers idD) = [idC, idB, idA]
   \<and> map rc_level (getReferralChain exampleUsers idD) = [1, 2, 3]"
proof -
  have ids: "map rc_userId (getReferralChain exampleUsers idD) = [idC, idB, idA]"
    using getReferralChain_bounded [of exampleUsers idD] ancestors_example by simp
  then have "length (getReferralChain exampleUsers idD) = 3"
    by (metis length_map length_Cons list.size(3) numeral_3_eq_3)
  then have "map rc_level (getReferralChain exampleUsers idD) = [1, 2, 3]"
    using getReferralChain_bounded [of exampleUsers idD] by (simp add: upt_rec)
  with ids show ?thesis by simp
qed

section \<open>Evaluation of the examples\<close>

lemmas example_ids = idA_def idB_def idC_def idD_def idE_def idT_def
lemmas example_users = exampleUsers_def userA_def userB_def userC_def userD_def newUser_def

lemma findById_examples:
  "findById exampleUsers idA = Some userA" "findById exampleUsers idB = Some userB"
  "findById exampleUsers idC = Some userC" "findById exampleUsers idD = Some userD"
  "findById exampleUsers idE = None"
  by (simp_all add: findById_def example_users example_ids)



lemma fee_example:
  "totalFee (calculateFeeDistribution bn exampleUsers userD (Fin 10000) ARBITRUM ''BTC'') = Fin 100"
  by (simp add: calculateFeeDistribution_def Let_def isFeesWaived_def userD_def newUser_def
      getFeeRateForTier_def FEE_TIERS_BASE_def)

section \<open>The claimable amount\<close>

text \<open>
  C10. For a user identifier with no user document and no commission row,
  \<open>getClaimableAmount\<close> returns commission "0" and cashback "0"; it has no failure.
\<close>

theorem getClaimableAmount_unknown_user:
  assumes "findById users userId = None" and "\<forall>c\<in>set rows. c_userId c \<noteq> userId"
  shows "getClaimableAmount toStr rows users userId = \<lparr>cl_commission = ''0'', cl_cashback = ''0''\<rparr>"
proof -
  have "filter (\<lambda>c. c_userId c = userId \<and> \<not> c_isClaimed c) rows = []"
    using assms(2) by (simp add: filter_empty_conv)
  then show ?thesis
    using assms(1) by (simp add: getClaimableAmount_def aggregateUnclaimed_def)
qed

theorem getClaimableAmount_unknown_user_witness:
  "findById exampleUsers idE = None
   \<and> getClaimableAmount (\<lambda>x. ''1'') [exampleRow] exampleUsers idE =
       \<lparr>cl_commission = ''0'', cl_cashback = ''0''\<rparr>"
proof -
  have h1: "findById exampleUsers idE = None"
    by (simp add: findById_examples)
  have h2: "\<forall>c\<in>set [exampleRow]. c_userId c \<noteq> idE"
    by (simp add: exampleRow_def example_ids)
  show ?thesis
    using h1 getClaimableAmount_unknown_user [OF h1 h2, of "\<lambda>x. ''1''"] by simp
qed

section \<open>The fee distribution\<close>

lemma isZero_Fin: "isZero x \<Longrightarrow> x = Fin 0"
  by (cases x) simp_all

text \<open>
  C5. When the trader's fees are waived, and when the fee computed from the volume is zero,
  the distribution is all zero with no commission, and it is the same whatever the user
  collection holds: no ancestor is looked up.
\<close>

theorem calculateFeeDistribution_zero_fee:
  assumes "isFeesWaived user \<or> isZero (multipliedBy volume (getFeeRateForTier (feeTier user)))"
  shows "calculateFeeDistribution bn users user volume ch tok =
     \<lparr>traderId = u_id user, totalFee = Fin 0, cashback = Fin 0, commissions = [],
      treasury = Fin 0, chain = ch, token = tok\<rparr>
   \<and> calculateFeeDistribution bn' users' user volume ch tok =
       calculateFeeDistribution bn users user volume ch tok"
  using assms by (auto simp: calculateFeeDistribution_def Let_def dest: isZero_Fin)

theorem calculateFeeDistribution_zero_fee_witness:
  "isFeesWaived waivedB
   \<and> calculateFeeDistribution bnExample exampleWaivedUsers waivedB (Fin 10000) ARBITRUM ''BTC'' =
       \<lparr>traderId = idB, totalFee = Fin 0, cashback = Fin 0, commissions = [],
        treasury = Fin 0, chain = ARBITRUM, token = ''BTC''\<rparr>
   \<and> calculateFeeDistribution bnExample exampleUsers userD (Fin 0) SOLANA ''SOL'' =
       \<lparr>traderId = idD, totalFee = Fin 0, cashback = Fin 0, commissions = [],
        treasury = Fin 0, chain = SOLANA, token = ''SOL''\<rparr>"
proof -
  have w: "isFeesWaived waivedB"
    by (simp add: isFeesWaived_def waivedB_def)
  have z: "isZero (multipliedBy (Fin 0) (getFeeRateForTier (feeTier userD)))"
    by (simp add: getFeeRateForTier_def FEE_TIERS_BASE_def userD_def newUser_def)
  have "calculateFeeDistribution bnExample exampleWaivedUsers waivedB (Fin 10000) ARBITRUM ''BTC'' =
       \<lparr>traderId = idB, totalFee = Fin 0, cashback = Fin 0, commissions = [],
        treasury = Fin 0, chain = ARBITRUM, token = ''BTC''\<rparr>"
    using w calculateFeeDistribution_zero_fee [of waivedB "Fin 10000" bnExample
        exampleWaivedUsers ARBITRUM "''BTC''"]
    by (simp add: waivedB_def newUser_def)
  moreover have "calculateFeeDistribution bnExample exampleUsers userD (Fin 0) SOLANA ''SOL'' =
       \<lparr>traderId = idD, totalFee = Fin 0, cashback = Fin 0, commissions = [],
        treasury = Fin 0, chain = SOLANA, token = ''SOL''\<rparr>"
    using z calculateFeeDistribution_zero_fee [of userD "Fin 0" bnExample exampleUsers SOLANA
        "''SOL''"]
    by (simp add: userD_def newUser_def)
  ultimately show ?thesis using w by simp
qed

text \<open>
  C2, as the code has it. For every trade with a non-zero total fee the cashback is the
  exact product of the total fee and 0.10 and the treasury the exact product of the total
  fee and 0.55: \<open>multipliedBy\<close> does not round, so no truncation to 18 decimal places takes
  place. For a finite total fee \<open>t\<close> they are the rationals \<open>t \<times> 0.10\<close> and \<open>t \<times> 0.55\<close>.
\<close>

theorem cashback_treasury_exact:
  assumes "\<not> isZero (totalFee (calculateFeeDistribution bn users user volume ch tok))"
  shows "cashback (calculateFeeDistribution bn users user volume ch tok) =
           multipliedBy (totalFee (calculateFeeDistribution bn users user volume ch tok))
             (Fin (1 / 10))
       \<and> treasury (calculateFeeDistribution bn users user volume ch tok) =
           multipliedBy (totalFee (calculateFeeDistribution bn users user volume ch tok))
             (Fin (55 / 100))
       \<and> (\<forall>t. totalFee (calculateFeeDistribution bn users user volume ch tok) = Fin t \<longrightarrow>
             cashback (calculateFeeDistribution bn users user volume ch tok) = Fin (t * (1 / 10))
           \<and> treasury (calculateFeeDistribution bn users user volume ch tok) =
               Fin (t * (55 / 100)))"
  using assms
  by (auto simp: calculateFeeDistribution_def Let_def CASHBACK_RATE_def TREASURY_RATE_def)

theorem cashback_treasury_exact_witness:
  "totalFee (calculateFeeDistribution bnExample exampleUsers userD (Fin 10000) ARBITRUM ''BTC'') =
     Fin 100
   \<and> cashback (calculateFeeDistribution bnExample exampleUsers userD (Fin 10000) ARBITRUM ''BTC'') =
       Fin 10
   \<and> treasury (calculateFeeDistribution bnExample exampleUsers userD (Fin 10000) ARBITRUM ''BTC'') =
       Fin 55"
  using cashback_treasury_exact [of bnExample exampleUsers userD "Fin 10000" ARBITRUM "''BTC''"]
  by (simp add: fee_example)

text \<open>
  The claim with the truncation fails: at the volume 1.000000000000000001 of the root A,
  a \<open>BASE\<close> trader, the total fee is 0.01000000000000000001 and the cashback
  0.001000000000000000001, which has 21 decimal places; truncated it would be 0.001.
\<close>

lemma floor_example: "\<lfloor>(1000000000000000001::rat) / 1000\<rfloor> = 1000000000000000"
  by (simp add: floor_eq_iff)

lemma ROUND_DOWN_example:
  "ROUND_DOWN DECIMAL_PLACES (1000000000000000001 / 10 ^ 21) = 1 / 1000"
  by (simp add: ROUND_DOWN_def DECIMAL_PLACES_def floor_example)

theorem cashback_not_truncated:
  "\<not> isZero (totalFee (calculateFeeDistribution bnExample exampleUsers userA
       (Fin (1000000000000000001 / 10 ^ 18)) ARBITRUM ''BTC''))
   \<and> cashback (calculateFeeDistribution bnExample exampleUsers userA
       (Fin (1000000000000000001 / 10 ^ 18)) ARBITRUM ''BTC'') \<noteq>
     truncateDP (multipliedBy
       (totalFee (calculateFeeDistribution bnExample exampleUsers userA
          (Fin (1000000000000000001 / 10 ^ 18)) ARBITRUM ''BTC'')) CASHBACK_RATE)"
proof -
  have chain: "getReferralChain exampleUsers idA = []"
    unfolding getReferralChain_ancestors
    by (simp add: eval_nat_numeral parentOf_def findById_def example_users example_ids)
  have d: "calculateFeeDistribution bnExample exampleUsers userA
         (Fin (1000000000000000001 / 10 ^ 18)) ARBITRUM ''BTC'' =
      \<lparr>traderId = idA, totalFee = Fin (1000000000000000001 / 10 ^ 20),
       cashback = Fin (1000000000000000001 / 10 ^ 21), commissions = [],
       treasury = Fin (55000000000000000055 / 10 ^ 22), chain = ARBITRUM, token = ''BTC''\<rparr>"
    by (simp add: calculateFeeDistribution_def Let_def isFeesWaived_def userA_def newUser_def
        getFeeRateForTier_def FEE_TIERS_BASE_def CASHBACK_RATE_def TREASURY_RATE_def
        calculateCommissionBreakdown_def chain [unfolded userA_def newUser_def])
  show ?thesis
    unfolding d using ROUND_DOWN_example by (simp add: CASHBACK_RATE_def)
qed

section \<open>The commission list\<close>

lemma commissionFor_entry:
  "commissionFor bn users fee r =
     (if isGreaterThan (ancestorRate bn users r) (Fin 0) then [commissionEntry bn users fee r]
      else [])"
  by (simp add: commissionFor_def ancestorRate_def commissionEntry_def Let_def
      split: option.splits)

lemma breakdown_loop:
  "calculateCommissionBreakdown_loop bn users fee rs acc =
     acc @ map (commissionEntry bn users fee)
             (filter (\<lambda>r. isGreaterThan (ancestorRate bn users r) (Fin 0)) rs)"
  by (induction rs arbitrary: acc) (simp_all add: commissionFor_entry)

lemma ancestors_found:
  "p \<in> set (ancestorsUpTo n users i) \<Longrightarrow> findById users (u_id p) = Some p"
proof (induction n arbitrary: i)
  case 0
  then show ?case by simp
next
  case (Suc n)
  show ?case
  proof (cases "parentOf users i")
    case None
    then show ?thesis using Suc.prems by simp
  next
    case (Some q)
    then have q: "findById users (u_id q) = Some q"
      by (auto simp: parentOf_def split: option.splits dest: findById_Some)
    from Suc.prems Some have "p = q \<or> p \<in> set (ancestorsUpTo n users (u_id q))"
      by simp
    then show ?thesis using q Suc.IH by blast
  qed
qed

lemma chain_found:
  assumes "r \<in> set (getReferralChain users i)"
  shows "\<exists>a. findById users (rc_userId r) = Some a"
proof -
  have "rc_userId r \<in> set (map rc_userId (getReferralChain users i))"
    using assms by simp
  then have "rc_userId r \<in> set (map u_id (ancestorsUpTo 3 users i))"
    unfolding getReferralChain_ancestors entries_ids .
  then show ?thesis
    using ancestors_found by fastforce
qed

text \<open>
  The resolver on the structure that the service builds from the stored one is the rate
  of the specification: a stored rate that is present is read as the decimal it denotes.
\<close>

lemma rate_resolved:
  "getCommissionRateForLevel level (toCustomStructure bn stored) = rateForLevel bn level stored"
proof (cases stored)
  case None
  then show ?thesis
    by (simp add: getCommissionRateForLevel_def toCustomStructure_def rateForLevel_def
        standardRate_def LEVEL_1_def LEVEL_2_def LEVEL_3_def)
next
  case (Some cs)
  have w: "truthy (commissionsWaived cs) = (commissionsWaived cs = Some True)"
    by (cases "commissionsWaived cs") simp_all
  show ?thesis
    unfolding Some
    by (cases "structType cs")
      (auto simp: getCommissionRateForLevel_def toCustomStructure_def rateForLevel_def
        rateOfString_def storedRate_def standardRate_def LEVEL_1_def LEVEL_2_def LEVEL_3_def w
        Let_def split: option.splits)
qed

lemma ancestorRate_ancestor:
  "findById users (u_id a) = Some a \<Longrightarrow>
     ancestorRate bn users (chainEntry l a) = rateForLevel bn l (customCommissionStructure a)"
  by (simp add: ancestorRate_def chainEntry_def rate_resolved)

lemma commissionEntry_ancestor:
  "findById users (u_id a) = Some a \<Longrightarrow>
     commissionEntry bn users fee (chainEntry l a) = ancestorEntry bn fee l a"
  by (simp add: commissionEntry_def ancestorEntry_def ancestorRate_ancestor)
    (simp add: chainEntry_def)

lemma numbered_chain:
  assumes "length xs \<le> 3"
  shows "map (\<lambda>(k, u). chainEntry (1 + int k) u) (enumerate 0 xs) =
     map (\<lambda>(l, a). chainEntry l a) (zip [1, 2, 3] xs)"
  using assms by (rule short_list) (simp_all add: enumerate_Suc_eq)

text \<open>
  C4. For every trade with a non-zero total fee the commission list is, in the order of
  the trader's ancestor chain (the ancestors that the parent pointers give, at most 3,
  numbered from level 1), the entry \<open>{level, userId, amount = totalFee \<times> rate, rate}\<close> of
  each ancestor whose rate is strictly positive, and nothing for the others, where the rate
  is the one that the specification gives for the level and the structure stored with the
  ancestor. In every entry the rate is positive and the amount is the exact product of the
  total fee and the rate. Every entry of the chain that the service walks is a user of the
  collection, and there are at most 3 commissions.
\<close>

theorem commissions_of_chain:
  assumes "\<not> isZero (totalFee (calculateFeeDistribution bn users user volume ch tok))"
  shows "commissions (calculateFeeDistribution bn users user volume ch tok) =
           map (\<lambda>(l, a). ancestorEntry bn
                  (totalFee (calculateFeeDistribution bn users user volume ch tok)) l a)
             (filter (\<lambda>(l, a). isGreaterThan (rateForLevel bn l (customCommissionStructure a))
                                (Fin 0))
                (zip [1, 2, 3] (ancestorsUpTo 3 users (u_id user))))
         \<and> (\<forall>c \<in> set (commissions (calculateFeeDistribution bn users user volume ch tok)).
               \<forall>t r. totalFee (calculateFeeDistribution bn users user volume ch tok) = Fin t
                 \<longrightarrow> cb_rate c = Fin r \<longrightarrow> 0 < r \<and> cb_amount c = Fin (t * r))
         \<and> (\<forall>r \<in> set (getReferralChain users (u_id user)).
               findById users (rc_userId r) \<noteq> None)
         \<and> length (commissions (calculateFeeDistribution bn users user volume ch tok)) \<le> 3"
proof -
  let ?fd = "calculateFeeDistribution bn users user volume ch tok"
  let ?as = "ancestorsUpTo 3 users (u_id user)"
  let ?pos = "\<lambda>(l, a). isGreaterThan (rateForLevel bn l (customCommissionStructure a)) (Fin 0)"
  have l3: "length ?as \<le> 3"
    by (rule length_ancestorsUpTo)
  have found: "findById users (u_id a) = Some a" if "(l, a) \<in> set (zip [1, 2, 3] ?as)"
    for l :: int and a
    using that ancestors_found [of a 3 users "u_id user"] by (auto dest: set_zip_rightD)
  have "commissions ?fd = calculateCommissionBreakdown bn users (u_id user) (totalFee ?fd)"
    using assms by (auto simp: calculateFeeDistribution_def Let_def)
  also have "\<dots> = map (commissionEntry bn users (totalFee ?fd))
        (filter (\<lambda>r. isGreaterThan (ancestorRate bn users r) (Fin 0))
           (map (\<lambda>(l, a). chainEntry l a) (zip [1, 2, 3] ?as)))"
    by (simp add: calculateCommissionBreakdown_def breakdown_loop getReferralChain_ancestors
        numbered_chain [OF l3])
  also have "\<dots> = map (\<lambda>(l, a). commissionEntry bn users (totalFee ?fd) (chainEntry l a))
        (filter (\<lambda>(l, a). isGreaterThan (ancestorRate bn users (chainEntry l a)) (Fin 0))
           (zip [1, 2, 3] ?as))"
    by (simp add: filter_map comp_def split_def)
  also have "filter (\<lambda>(l, a). isGreaterThan (ancestorRate bn users (chainEntry l a)) (Fin 0))
           (zip [1, 2, 3] ?as) = filter ?pos (zip [1, 2, 3] ?as)"
    by (rule filter_cong) (auto simp: ancestorRate_ancestor dest: found)
  also have "map (\<lambda>(l, a). commissionEntry bn users (totalFee ?fd) (chainEntry l a))
        (filter ?pos (zip [1, 2, 3] ?as)) =
      map (\<lambda>(l, a). ancestorEntry bn (totalFee ?fd) l a) (filter ?pos (zip [1, 2, 3] ?as))"
    by (rule map_cong) (auto simp: commissionEntry_ancestor dest: found)
  finally have eq: "commissions ?fd =
      map (\<lambda>(l, a). ancestorEntry bn (totalFee ?fd) l a) (filter ?pos (zip [1, 2, 3] ?as))" .
  have amounts: "\<forall>c \<in> set (commissions ?fd).
      \<forall>t r. totalFee ?fd = Fin t \<longrightarrow> cb_rate c = Fin r \<longrightarrow> 0 < r \<and> cb_amount c = Fin (t * r)"
    unfolding eq by (auto simp: ancestorEntry_def)
  have "length (filter ?pos (zip [1, 2, 3] ?as)) \<le> length (zip [1, 2, 3 :: int] ?as)"
    by (rule length_filter_le)
  also have "\<dots> \<le> 3"
    by simp
  finally have "length (commissions ?fd) \<le> 3"
    by (simp add: eq)
  moreover have "\<forall>r \<in> set (getReferralChain users (u_id user)).
      findById users (rc_userId r) \<noteq> None"
    using chain_found by fastforce
  ultimately show ?thesis using eq amounts by blast
qed

lemma ancestors_custom:
  "ancestorsUpTo 3 exampleCustomUsers idD = [customC, customB, userA]"
  by (simp add: eval_nat_numeral parentOf_def findById_def exampleCustomUsers_def userA_def
      customB_def customC_def userD_def newUser_def example_ids)

lemma fee_custom:
  "totalFee (calculateFeeDistribution bn exampleCustomUsers userD (Fin 10000) ARBITRUM ''BTC'') =
     Fin 100"
  by (simp add: calculateFeeDistribution_def Let_def isFeesWaived_def userD_def newUser_def
      getFeeRateForTier_def FEE_TIERS_BASE_def)

lemma rates_custom:
  "rateForLevel bnRates 1 (customCommissionStructure customC) = Fin (4 / 10)"
  "rateForLevel bnRates 2 (customCommissionStructure customB) = Fin 0"
  "rateForLevel bnRates 3 (customCommissionStructure userA) = Fin (2 / 100)"
  by (simp_all add: rateForLevel_def storedRate_def customC_def customB_def userA_def newUser_def
      bnRates_def)

text \<open>
  The trade of D in the collection with the custom rates: C is paid at its stored rate 0.4,
  B, whose stored rate at level 2 is 0, has no entry, and A is paid at the standard rate of
  level 3.
\<close>

theorem commissions_of_chain_witness:
  "commissions (calculateFeeDistribution bnRates exampleCustomUsers userD (Fin 10000) ARBITRUM
      ''BTC'') =
     [\<lparr>cb_level = 1, cb_userId = idC, cb_amount = Fin 40, cb_rate = Fin (4 / 10)\<rparr>,
      \<lparr>cb_level = 3, cb_userId = idA, cb_amount = Fin 2, cb_rate = Fin (2 / 100)\<rparr>]"
proof -
  have u: "u_id userD = idD"
    by (simp add: userD_def newUser_def)
  have ids: "u_id customC = idC" "u_id userA = idA"
    by (simp_all add: customC_def userA_def newUser_def)
  have nz: "\<not> isZero (totalFee (calculateFeeDistribution bnRates exampleCustomUsers userD
      (Fin 10000) ARBITRUM ''BTC''))"
    by (simp add: fee_custom)
  show ?thesis
    using commissions_of_chain [OF nz]
    by (simp add: fee_custom u ancestors_custom rates_custom ancestorEntry_def ids)
qed

section \<open>The bound on the split\<close>

lemma paired_step:
  assumes "0 < t" "paired t A B" "isGreaterThan r (Fin 0)"
  shows "paired t (plus_bn A (multipliedBy (Fin t) r)) (plus_bn B r)"
proof (cases r)
  case (Fin q)
  from assms(2) show ?thesis unfolding paired_def
  proof
    assume "\<exists>R. A = Fin (t * R) \<and> B = Fin R"
    then obtain R where "A = Fin (t * R)" "B = Fin R" by blast
    then have "plus_bn A (multipliedBy (Fin t) r) = Fin (t * (R + q)) \<and> plus_bn B r = Fin (R + q)"
      using Fin by (simp add: algebra_simps)
    then show "(\<exists>R. plus_bn A (multipliedBy (Fin t) r) = Fin (t * R) \<and> plus_bn B r = Fin R) \<or>
      plus_bn A (multipliedBy (Fin t) r) = PosInf \<and> plus_bn B r = PosInf" by blast
  next
    assume "A = PosInf \<and> B = PosInf"
    then show "(\<exists>R. plus_bn A (multipliedBy (Fin t) r) = Fin (t * R) \<and> plus_bn B r = Fin R) \<or>
      plus_bn A (multipliedBy (Fin t) r) = PosInf \<and> plus_bn B r = PosInf"
      using Fin by simp
  qed
next
  case PosInf
  then show ?thesis using assms(1,2) by (auto simp: paired_def signedInf_def)
next
  case NegInf
  then show ?thesis using assms(3) by simp
next
  case NaN
  then show ?thesis using assms(3) by simp
qed

lemma paired_foldl:
  assumes "0 < t"
  shows "paired t A B \<Longrightarrow>
    (\<forall>c\<in>set cs. isGreaterThan (cb_rate c) (Fin 0) \<and> cb_amount c = multipliedBy (Fin t) (cb_rate c)) \<Longrightarrow>
    paired t (foldl (\<lambda>sum c. plus_bn sum (cb_amount c)) A cs)
             (foldl (\<lambda>sum c. plus_bn sum (cb_rate c)) B cs)"
proof (induction cs arbitrary: A B)
  case Nil
  then show ?case by simp
next
  case (Cons c cs)
  have "paired t (plus_bn A (cb_amount c)) (plus_bn B (cb_rate c))"
    using paired_step [OF assms Cons.prems(1), of "cb_rate c"] Cons.prems(2) by simp
  then show ?case using Cons.IH Cons.prems(2) by simp
qed

lemma paired_sums:
  assumes "0 < t"
    and "\<forall>c\<in>set cs. isGreaterThan (cb_rate c) (Fin 0) \<and> cb_amount c = multipliedBy (Fin t) (cb_rate c)"
  shows "paired t (sumCommissions cs) (sumRates cs)"
proof -
  have "paired t (Fin 0) (Fin 0)"
    unfolding paired_def by (intro disjI1 exI [of _ 0]) simp
  then show ?thesis
    unfolding sumCommissions_def sumRates_def using paired_foldl [OF assms(1)] assms(2) by blast
qed

lemma bound_iff:
  assumes "0 < t" "paired t S R"
  shows "isLessThanOrEqualTo (plus_bn (plus_bn (multipliedBy (Fin t) CASHBACK_RATE)
            (multipliedBy (Fin t) TREASURY_RATE)) S) (Fin t)
         \<longleftrightarrow> isLessThanOrEqualTo R TOTAL_COMMISSION_RATE"
  using assms(2) unfolding paired_def
proof
  assume "\<exists>q. S = Fin (t * q) \<and> R = Fin q"
  then obtain q where q: "S = Fin (t * q)" "R = Fin q" by blast
  have "t * (10 / 100) + t * (55 / 100) + t * q \<le> t \<longleftrightarrow> t * (65 / 100 + q) \<le> t * 1"
    by (simp add: algebra_simps)
  also have "\<dots> \<longleftrightarrow> 65 / 100 + q \<le> 1"
    using assms(1) by (simp only: mult_le_cancel_left_pos)
  also have "\<dots> \<longleftrightarrow> q \<le> 35 / 100" by auto
  finally show ?thesis
    using q by (simp add: CASHBACK_RATE_def TREASURY_RATE_def TOTAL_COMMISSION_RATE_def not_less)
next
  assume "S = PosInf \<and> R = PosInf"
  then show ?thesis
    by (simp add: CASHBACK_RATE_def TREASURY_RATE_def TOTAL_COMMISSION_RATE_def)
qed

lemma rate_cases:
  assumes "findById users (u_id a) = Some a" "standardOrWaived a"
  shows "ancestorRate bn users (chainEntry l a) = standardRate l
       \<or> ancestorRate bn users (chainEntry l a) = Fin 0"
  using assms
  by (auto simp: ancestorRate_def chainEntry_def standardOrWaived_def toCustomStructure_def
      getCommissionRateForLevel_def split: option.splits StructureType.splits)

lemma sumRates_entries:
  "sumRates (map (commissionEntry bn users fee) rs) =
     foldl plus_bn (Fin 0) (map (ancestorRate bn users) rs)"
  by (simp add: sumRates_def commissionEntry_def foldl_map)

lemma standard_sum:
  assumes "\<forall>a\<in>set as. findById users (u_id a) = Some a \<and> standardOrWaived a"
    and "length as \<le> 3"
  shows "isLessThanOrEqualTo
           (sumRates (map (commissionEntry bn users fee)
              (filter (\<lambda>r. isGreaterThan (ancestorRate bn users r) (Fin 0))
                 (map (\<lambda>(k, u). chainEntry (1 + int k) u) (enumerate 0 as)))))
           TOTAL_COMMISSION_RATE"
  using assms(2)
proof (cases as rule: short_list)
  case 1
  then show ?thesis by (simp add: sumRates_def TOTAL_COMMISSION_RATE_def)
next
  case (2 a)
  with assms(1) rate_cases [of users a bn 1] show ?thesis
    by (auto simp: sumRates_entries standardRate_def LEVEL_1_def TOTAL_COMMISSION_RATE_def)
next
  case (3 a b)
  with assms(1) rate_cases [of users a bn 1] rate_cases [of users b bn 2] show ?thesis
    by (auto simp: sumRates_entries standardRate_def LEVEL_1_def LEVEL_2_def
        TOTAL_COMMISSION_RATE_def)
next
  case (4 a b c)
  with assms(1) rate_cases [of users a bn 1] rate_cases [of users b bn 2]
    rate_cases [of users c bn 3] show ?thesis
    by (auto simp: sumRates_entries standardRate_def LEVEL_1_def LEVEL_2_def LEVEL_3_def
        TOTAL_COMMISSION_RATE_def)
qed

lemma distribution_nonzero:
  assumes "\<not> isFeesWaived user" "0 < v"
  shows "calculateFeeDistribution bn users user (Fin v) ch tok =
     \<lparr>traderId = u_id user,
      totalFee = multipliedBy (Fin v) (getFeeRateForTier (feeTier user)),
      cashback = multipliedBy (multipliedBy (Fin v) (getFeeRateForTier (feeTier user))) CASHBACK_RATE,
      commissions = map (commissionEntry bn users (multipliedBy (Fin v) (getFeeRateForTier (feeTier user))))
          (filter (\<lambda>r. isGreaterThan (ancestorRate bn users r) (Fin 0))
             (getReferralChain users (u_id user))),
      treasury = multipliedBy (multipliedBy (Fin v) (getFeeRateForTier (feeTier user))) TREASURY_RATE,
      chain = ch, token = tok\<rparr>"
  using assms
  by (cases "feeTier user")
    (simp_all add: calculateFeeDistribution_def Let_def getFeeRateForTier_def FEE_TIERS_BASE_def
      FEE_TIERS_REDUCED_def calculateCommissionBreakdown_def breakdown_loop)

lemma fee_positive:
  assumes "0 < v"
  shows "\<exists>t. 0 < t \<and> multipliedBy (Fin v) (getFeeRateForTier tier) = Fin t"
proof (cases tier)
  case BASE
  have "0 < v * (1 / 100)" using assms by simp
  then show ?thesis
    unfolding BASE getFeeRateForTier_def FEE_TIERS_BASE_def
    by (intro exI [of _ "v * (1 / 100)"]) simp
next
  case REDUCED
  have "0 < v * (5 / 1000)" using assms by simp
  then show ?thesis
    unfolding REDUCED getFeeRateForTier_def FEE_TIERS_REDUCED_def
    by (intro exI [of _ "v * (5 / 1000)"]) simp
qed

text \<open>
  C1, as the code has it. For every valid trade (finite positive volume) the cashback, the
  treasury and the commission amounts sum to at most the total fee exactly when the rates
  of the emitted commissions sum to at most 0.35; the engine does not rescale. This is the
  case whenever no ancestor of the chain has a rate of its own (no custom structure, or a
  waived one).
\<close>

theorem fee_split_bound:
  assumes "0 < v"
  shows "(isLessThanOrEqualTo
            (plus_bn (plus_bn (cashback (calculateFeeDistribution bn users user (Fin v) ch tok))
                              (treasury (calculateFeeDistribution bn users user (Fin v) ch tok)))
               (sumCommissions (commissions (calculateFeeDistribution bn users user (Fin v) ch tok))))
            (totalFee (calculateFeeDistribution bn users user (Fin v) ch tok))
          \<longleftrightarrow>
          isLessThanOrEqualTo
            (sumRates (commissions (calculateFeeDistribution bn users user (Fin v) ch tok)))
            TOTAL_COMMISSION_RATE)
       \<and> ((\<forall>a\<in>set (ancestorsUpTo 3 users (u_id user)). standardOrWaived a) \<longrightarrow>
          isLessThanOrEqualTo
            (plus_bn (plus_bn (cashback (calculateFeeDistribution bn users user (Fin v) ch tok))
                              (treasury (calculateFeeDistribution bn users user (Fin v) ch tok)))
               (sumCommissions (commissions (calculateFeeDistribution bn users user (Fin v) ch tok))))
            (totalFee (calculateFeeDistribution bn users user (Fin v) ch tok)))"
proof (cases "isFeesWaived user")
  case True
  then have "calculateFeeDistribution bn users user (Fin v) ch tok =
      \<lparr>traderId = u_id user, totalFee = Fin 0, cashback = Fin 0, commissions = [],
       treasury = Fin 0, chain = ch, token = tok\<rparr>"
    by (simp add: calculateFeeDistribution_def Let_def)
  then show ?thesis
    by (simp add: sumCommissions_def sumRates_def TOTAL_COMMISSION_RATE_def)
next
  case False
  obtain t where t: "0 < t" "multipliedBy (Fin v) (getFeeRateForTier (feeTier user)) = Fin t"
    using fee_positive [OF assms, of "feeTier user"] by blast
  let ?cs = "map (commissionEntry bn users (Fin t))
      (filter (\<lambda>r. isGreaterThan (ancestorRate bn users r) (Fin 0))
         (getReferralChain users (u_id user)))"
  have d: "calculateFeeDistribution bn users user (Fin v) ch tok =
     \<lparr>traderId = u_id user, totalFee = Fin t, cashback = multipliedBy (Fin t) CASHBACK_RATE,
      commissions = ?cs, treasury = multipliedBy (Fin t) TREASURY_RATE, chain = ch, token = tok\<rparr>"
    using distribution_nonzero [OF False assms, of bn users ch tok] t(2) by simp
  have "\<forall>c\<in>set ?cs. isGreaterThan (cb_rate c) (Fin 0)
      \<and> cb_amount c = multipliedBy (Fin t) (cb_rate c)"
    by (auto simp: commissionEntry_def)
  then have "paired t (sumCommissions ?cs) (sumRates ?cs)"
    by (rule paired_sums [OF t(1)])
  then have iff: "isLessThanOrEqualTo (plus_bn (plus_bn (multipliedBy (Fin t) CASHBACK_RATE)
            (multipliedBy (Fin t) TREASURY_RATE)) (sumCommissions ?cs)) (Fin t)
         \<longleftrightarrow> isLessThanOrEqualTo (sumRates ?cs) TOTAL_COMMISSION_RATE"
    by (rule bound_iff [OF t(1)])
  have std: "isLessThanOrEqualTo (sumRates ?cs) TOTAL_COMMISSION_RATE"
    if "\<forall>a\<in>set (ancestorsUpTo 3 users (u_id user)). standardOrWaived a"
    unfolding getReferralChain_ancestors
    using that ancestors_found [of _ 3 users "u_id user"]
    by (intro standard_sum) (auto simp: length_ancestorsUpTo)
  show ?thesis
    unfolding d using iff std by auto
qed

lemma ancestors_exampleD: "ancestorsUpTo 3 exampleUsers idD = [userC, userB, userA]"
  by (simp add: eval_nat_numeral parentOf_def findById_def example_users example_ids)

theorem fee_split_bound_witness:
  "isLessThanOrEqualTo
     (plus_bn (plus_bn (cashback (calculateFeeDistribution bnExample exampleUsers userD (Fin 10000)
                                    ARBITRUM ''BTC''))
                       (treasury (calculateFeeDistribution bnExample exampleUsers userD (Fin 10000)
                                    ARBITRUM ''BTC'')))
        (sumCommissions (commissions (calculateFeeDistribution bnExample exampleUsers userD
                                        (Fin 10000) ARBITRUM ''BTC''))))
     (totalFee (calculateFeeDistribution bnExample exampleUsers userD (Fin 10000) ARBITRUM ''BTC''))"
proof -
  have u: "u_id userD = idD"
    by (simp add: userD_def newUser_def)
  have std: "\<forall>a\<in>set (ancestorsUpTo 3 exampleUsers (u_id userD)). standardOrWaived a"
    unfolding u ancestors_exampleD
    by (simp add: standardOrWaived_def userA_def userB_def userC_def newUser_def)
  have pos: "(0::rat) < 10000" by simp
  show ?thesis
    using fee_split_bound [OF pos, of bnExample exampleUsers userD ARBITRUM "''BTC''"] std
    by blast
qed

text \<open>
  The claim for every combination of custom structures fails: B trades the volume 10000
  under A, who has the \<open>KOL_DIRECT\<close> structure. The total fee is 100, the cashback 10, the
  treasury 55 and A's commission 50: together 115.
\<close>

lemma kol_distribution:
  "calculateFeeDistribution bnExample exampleKolUsers kolB (Fin 10000) ARBITRUM ''BTC'' =
     \<lparr>traderId = idB, totalFee = Fin 100, cashback = Fin 10,
      commissions = [\<lparr>cb_level = 1, cb_userId = idA, cb_amount = Fin 50, cb_rate = Fin (1 / 2)\<rparr>],
      treasury = Fin 55, chain = ARBITRUM, token = ''BTC''\<rparr>"
proof -
  have chain: "getReferralChain exampleKolUsers idB = [chainEntry 1 kolA]"
    unfolding getReferralChain_ancestors
    by (simp add: eval_nat_numeral parentOf_def findById_def exampleKolUsers_def kolA_def
        kolB_def newUser_def example_ids enumerate_Suc_eq)
  have rate: "ancestorRate bnExample exampleKolUsers (chainEntry 1 kolA) = Fin (1 / 2)"
    by (simp add: ancestorRate_def chainEntry_def findById_def exampleKolUsers_def kolA_def
        newUser_def toCustomStructure_def getCommissionRateForLevel_def)
  have nw: "\<not> isFeesWaived kolB"
    by (simp add: isFeesWaived_def kolB_def newUser_def)
  have pos: "(0::rat) < 10000" by simp
  show ?thesis
    unfolding distribution_nonzero [OF nw pos]
    by (simp add: kolB_def newUser_def chain rate getFeeRateForTier_def FEE_TIERS_BASE_def
        CASHBACK_RATE_def TREASURY_RATE_def commissionEntry_def)
      (simp add: chainEntry_def kolA_def newUser_def)
qed

theorem fee_split_exceeded:
  "findById exampleKolUsers idB = Some kolB
   \<and> \<not> isLessThanOrEqualTo
     (plus_bn (plus_bn (cashback (calculateFeeDistribution bnExample exampleKolUsers kolB (Fin 10000)
                                    ARBITRUM ''BTC''))
                       (treasury (calculateFeeDistribution bnExample exampleKolUsers kolB (Fin 10000)
                                    ARBITRUM ''BTC'')))
        (sumCommissions (commissions (calculateFeeDistribution bnExample exampleKolUsers kolB
                                        (Fin 10000) ARBITRUM ''BTC''))))
     (totalFee (calculateFeeDistribution bnExample exampleKolUsers kolB (Fin 10000) ARBITRUM ''BTC''))"
  unfolding kol_distribution
  by (simp add: sumCommissions_def findById_def exampleKolUsers_def kolA_def kolB_def newUser_def
      example_ids)

section \<open>Registration under a referral code\<close>

text \<open>
  The walk that computes a depth has no bound of its own; it returns in every collection
  whose parent chains are acyclic.
\<close>

lemma depth_loop_returns:
  assumes "acyclicParents users"
  shows "\<exists>d. calculateReferralDepth_loop users (findById users i) n = Some d"
  using assms unfolding acyclicParents_def
proof (induction i arbitrary: n rule: wf_induct_rule)
  case (less i)
  show ?case
  proof (cases "findById users i")
    case None
    then show ?thesis by (subst calculateReferralDepth_loop.simps) simp
  next
    case (Some u)
    show ?thesis
    proof (cases "referrerId u")
      case None
      with Some show ?thesis by (subst calculateReferralDepth_loop.simps) simp
    next
      case (Some rid)
      with \<open>findById users i = Some u\<close> have "(rid, i) \<in> parentRel users"
        by (auto simp: parentRel_def)
      then obtain d where "calculateReferralDepth_loop users (findById users rid) (n + 1) = Some d"
        using less.IH by blast
      with Some \<open>findById users i = Some u\<close> show ?thesis
        by (subst calculateReferralDepth_loop.simps) simp
    qed
  qed
qed








lemma consistent_cases:
  assumes "depthsConsistent users" and "u \<in> set users"
  obtains "referrerId u = None" "referralDepth u = 0"
  | p pu where "referrerId u = Some p" "findById users p = Some pu"
      "referralDepth u = referralDepth pu + 1" "pu \<in> set users" "u_id pu = p"
proof (cases "referrerId u")
  case None
  with assms have "referralDepth u = 0"
    by (auto simp: depthsConsistent_def list_all_iff)
  with None that(1) show ?thesis by blast
next
  case (Some p)
  with assms obtain pu where pu: "findById users p = Some pu"
    "referralDepth u = referralDepth pu + 1"
    by (fastforce simp: depthsConsistent_def list_all_iff split: option.splits)
  with Some that(2) findById_in_set findById_Some show ?thesis by blast
qed

lemma consistent_acyclic:
  assumes "depthsConsistent users"
  shows "acyclicParents users"
proof -
  let ?rank = "\<lambda>i. case findById users i of None \<Rightarrow> 0 | Some u \<Rightarrow> referralDepth u"
  have "?rank p < ?rank c" if "(p, c) \<in> parentRel users" for p c
  proof -
    from that obtain u where u: "findById users c = Some u" "referrerId u = Some p"
      by (auto simp: parentRel_def)
    then have "u \<in> set users"
      using findById_in_set by blast
    with assms show ?thesis
      by (cases rule: consistent_cases) (use u in simp_all)
  qed
  then have "parentRel users \<subseteq> measure ?rank"
    by auto
  then show ?thesis
    unfolding acyclicParents_def using wf_measure wf_subset by blast
qed

lemma consistent_empty: "depthsConsistent []"
  by (simp add: depthsConsistent_def)















section \<open>The writes of a trade\<close>

lemma incrementAll_success:
  "incrementAll dec st cs = (None, st') \<Longrightarrow>
     \<exists>amounts. those (map (\<lambda>c. dec (cb_amount c)) cs) = Some amounts
       \<and> journal st' = journal st @ map2 CommissionIncremented (map cb_userId cs) amounts"
proof (induction cs arbitrary: st)
  case Nil
  then show ?case by simp
next
  case (Cons c cs)
  from Cons.prems obtain a where a: "dec (cb_amount c) = Some a"
    and rest: "incrementAll dec (incCommission st (cb_userId c) a) cs = (None, st')"
    by (auto split: option.splits)
  from Cons.IH [OF rest] obtain amounts where
    am: "those (map (\<lambda>c. dec (cb_amount c)) cs) = Some amounts"
    and j: "journal st' = journal (incCommission st (cb_userId c) a)
              @ map2 CommissionIncremented (map cb_userId cs) amounts"
    by blast
  have "those (map (\<lambda>c. dec (cb_amount c)) (c # cs)) = Some (a # amounts)"
    using a am by simp
  moreover have "journal st' = journal st
      @ map2 CommissionIncremented (map cb_userId (c # cs)) (a # amounts)"
    using j by (simp add: incCommission_def)
  ultimately show ?case by blast
qed





lemma incrementAll_Some:
  "incrementAll Some st cs =
     (None, foldl (\<lambda>s c. incCommission s (cb_userId c) (cb_amount c)) st cs)"
  by (induction cs arbitrary: st) simp_all

lemma increments_fields:
  "journal (foldl (\<lambda>s c. incCommission s (cb_userId c) (cb_amount c)) st cs) =
     journal st @ map (\<lambda>c. CommissionIncremented (cb_userId c) (cb_amount c)) cs"
  "commissionModel (foldl (\<lambda>s c. incCommission s (cb_userId c) (cb_amount c)) st cs) =
     commissionModel st"
  "tradeModel (foldl (\<lambda>s c. incCommission s (cb_userId c) (cb_amount c)) st cs) = tradeModel st"
  by (induction cs arbitrary: st) (simp_all add: incCommission_def)

lemma valid_ids: "isValidObjectId idB" "isValidObjectId idD"
  by (simp_all add: isValidObjectId_def isHexDigit_def example_ids)

text \<open>A run on a store with no trade yet, where every amount converts.\<close>

lemma processTrade_fresh:
  assumes "isValidObjectId userId" "findById users userId = Some user"
    and "bn volume = Fin v" "0 < v" "volume \<noteq> []" "tok \<noteq> []"
  shows "fst (processTrade bn Some tradeId now (exampleStore users) userId volume tok side ch) =
      Inr ((newTrade tradeId user volume
              (calculateFeeDistribution bn users user (Fin v) ch tok) tok ch side)
             \<lparr>t_commissionsDistributed := True, t_distributedAt := Some now\<rparr>,
           calculateFeeDistribution bn users user (Fin v) ch tok)"
    and "journal (snd (processTrade bn Some tradeId now (exampleStore users) userId volume tok
          side ch)) =
      [TradeSaved tradeId False]
      @ (if commissions (calculateFeeDistribution bn users user (Fin v) ch tok) = [] then []
         else [CommissionsInserted
                 (map (commissionDoc tradeId (u_id user)
                         (calculateFeeDistribution bn users user (Fin v) ch tok))
                    (commissions (calculateFeeDistribution bn users user (Fin v) ch tok)))])
      @ map (\<lambda>c. CommissionIncremented (cb_userId c) (cb_amount c))
          (commissions (calculateFeeDistribution bn users user (Fin v) ch tok))
      @ [TradeSaved tradeId True,
         CashbackIncremented (u_id user)
           (cashback (calculateFeeDistribution bn users user (Fin v) ch tok))]"
    and "commissionModel (snd (processTrade bn Some tradeId now (exampleStore users) userId volume
          tok side ch)) =
      map (commissionDoc tradeId (u_id user)
             (calculateFeeDistribution bn users user (Fin v) ch tok))
        (commissions (calculateFeeDistribution bn users user (Fin v) ch tok))"
    and "tradeModel (snd (processTrade bn Some tradeId now (exampleStore users) userId volume
          tok side ch)) =
      [(newTrade tradeId user volume
          (calculateFeeDistribution bn users user (Fin v) ch tok) tok ch side)
         \<lparr>t_commissionsDistributed := True, t_distributedAt := Some now\<rparr>]"
  using assms
  by (simp_all add: processTrade_def Let_def exampleStore_def insertTrade_def newTrade_def
      distributeCommissions_def incrementAll_Some updateUserStats_def saveTrade_def
      increments_fields insertMany_def)



lemma example_request:
  "bnExample ''10000'' = Fin 10000" "(0::rat) < 10000" "''10000'' \<noteq> []" "''BTC'' \<noteq> []"
  by (simp_all add: bnExample_def)




text \<open>
  The calls that fail. The walk over the commissions stops at the first amount that cannot
  be stored, after the increments of the entries before it.
\<close>

lemma incrementAll_failure:
  "incrementAll dec st cs = (Some e, st') \<Longrightarrow>
     \<exists>k amounts. k < length cs \<and> dec (cb_amount (cs ! k)) = None
       \<and> those (map (\<lambda>c. dec (cb_amount c)) (take k cs)) = Some amounts
       \<and> journal st' = journal st @ map2 CommissionIncremented (map cb_userId (take k cs)) amounts"
proof (induction cs arbitrary: st)
  case Nil
  then show ?case by simp
next
  case (Cons c cs)
  show ?case
  proof (cases "dec (cb_amount c)")
    case None
    with Cons.prems have "st' = st" by simp
    with None show ?thesis
      by (intro exI [of _ 0] exI [of _ "[]"]) simp
  next
    case (Some a)
    with Cons.prems have "incrementAll dec (incCommission st (cb_userId c) a) cs = (Some e, st')"
      by simp
    from Cons.IH [OF this] obtain k amounts where k: "k < length cs"
      "dec (cb_amount (cs ! k)) = None"
      "those (map (\<lambda>c. dec (cb_amount c)) (take k cs)) = Some amounts"
      "journal st' = journal (incCommission st (cb_userId c) a)
         @ map2 CommissionIncremented (map cb_userId (take k cs)) amounts"
      by blast
    then show ?thesis using Some
      by (intro exI [of _ "Suc k"] exI [of _ "a # amounts"]) (simp add: incCommission_def)
  qed
qed

lemma distributeCommissions_journal:
  assumes "distributeCommissions dec st tradeId sourceUserId fd = (r, st')"
  shows "\<exists>incs. journal st' = journal st
           @ (if commissions fd = [] then []
              else [CommissionsInserted (map (commissionDoc tradeId sourceUserId fd) (commissions fd))])
           @ incs
         \<and> (\<forall>w\<in>set incs. \<exists>i a. w = CommissionIncremented i a)
         \<and> (r \<noteq> None \<longrightarrow> length incs < length (commissions fd))"
proof -
  let ?st1 = "if commissions fd = [] then st
     else insertMany st (map (commissionDoc tradeId sourceUserId fd) (commissions fd))"
  have run: "incrementAll dec ?st1 (commissions fd) = (r, st')"
    using assms by (auto simp: distributeCommissions_def Let_def)
  have j1: "journal ?st1 = journal st
           @ (if commissions fd = [] then []
              else [CommissionsInserted (map (commissionDoc tradeId sourceUserId fd) (commissions fd))])"
    by (simp add: insertMany_def)
  show ?thesis
  proof (cases r)
    case None
    with run incrementAll_success [of dec ?st1 "commissions fd" st'] obtain amounts where
      "those (map (\<lambda>c. dec (cb_amount c)) (commissions fd)) = Some amounts"
      "journal st' = journal ?st1 @ map2 CommissionIncremented (map cb_userId (commissions fd)) amounts"
      by blast
    then show ?thesis using None unfolding j1
      by (intro exI [of _ "map2 CommissionIncremented (map cb_userId (commissions fd)) amounts"])
        (auto dest!: set_zip_leftD)
  next
    case (Some e)
    with run incrementAll_failure [of dec ?st1 "commissions fd" e st'] obtain k amounts where
      k: "k < length (commissions fd)"
      "those (map (\<lambda>c. dec (cb_amount c)) (take k (commissions fd))) = Some amounts"
      "journal st' = journal ?st1
         @ map2 CommissionIncremented (map cb_userId (take k (commissions fd))) amounts"
      by blast
    then show ?thesis using Some unfolding j1
      by (intro exI [of _ "map2 CommissionIncremented (map cb_userId (take k (commissions fd))) amounts"])
        (auto dest!: set_zip_leftD)
  qed
qed

text \<open>
  A call that fails has written nothing, or has stopped in the distribution, before the
  flip, or has stopped at the trader's increment, after the flip: then the trade is marked
  and the cashback is not credited.
\<close>

lemma processTrade_failed_writes:
  assumes "processTrade bn dec tradeId now st userId volume tok side ch = (Inl e, st')"
  shows "journal st' = journal st
     \<or> (\<exists>ws. journal st' = journal st @ [TradeSaved tradeId False] @ ws
           \<and> TradeSaved tradeId True \<notin> set ws
           \<and> (\<forall>w\<in>set ws. \<forall>i a. w \<noteq> CashbackIncremented i a))
     \<or> (\<exists>ws. journal st' = journal st @ [TradeSaved tradeId False] @ ws @ [TradeSaved tradeId True]
           \<and> TradeSaved tradeId True \<notin> set ws
           \<and> (\<forall>w\<in>set ws. \<forall>i a. w \<noteq> CashbackIncremented i a))"
proof (cases "\<exists>user st1. isValidObjectId userId
    \<and> \<not> (isNaN (bn volume) \<or> isLessThanOrEqualTo (bn volume) (Fin 0))
    \<and> findById (userModel st) userId = Some user
    \<and> insertTrade st (newTrade tradeId user volume
         (calculateFeeDistribution bn (userModel st) user (bn volume) ch tok) tok ch side) = Inr st1")
  case False
  with assms have "st' = st"
    by (auto simp: processTrade_def Let_def split: if_splits option.splits sum.splits)
  then show ?thesis by simp
next
  case True
  then obtain user st1 where valid: "isValidObjectId userId"
    "\<not> (isNaN (bn volume) \<or> isLessThanOrEqualTo (bn volume) (Fin 0))"
    and u: "findById (userModel st) userId = Some user"
    and ins: "insertTrade st (newTrade tradeId user volume
         (calculateFeeDistribution bn (userModel st) user (bn volume) ch tok) tok ch side) = Inr st1"
    by blast
  let ?fd = "calculateFeeDistribution bn (userModel st) user (bn volume) ch tok"
  have j1: "journal st1 = journal st @ [TradeSaved tradeId False]"
    using ins by (auto simp: insertTrade_def newTrade_def split: if_splits)
  obtain r st2 where dist: "distributeCommissions dec st1 tradeId (u_id user) ?fd = (r, st2)"
    by (cases "distributeCommissions dec st1 tradeId (u_id user) ?fd") blast
  from distributeCommissions_journal [OF dist] obtain incs where
    j2: "journal st2 = journal st1
           @ (if commissions ?fd = [] then []
              else [CommissionsInserted (map (commissionDoc tradeId (u_id user) ?fd) (commissions ?fd))])
           @ incs"
    and incs: "\<forall>w\<in>set incs. \<exists>i a. w = CommissionIncremented i a"
    by blast
  let ?ws = "(if commissions ?fd = [] then []
              else [CommissionsInserted (map (commissionDoc tradeId (u_id user) ?fd) (commissions ?fd))])
           @ incs"
  have ws: "TradeSaved tradeId True \<notin> set ?ws" "\<forall>w\<in>set ?ws. \<forall>i a. w \<noteq> CashbackIncremented i a"
    using incs by auto
  show ?thesis
  proof (cases r)
    case (Some e')
    with assms u ins dist valid have "st' = st2"
      by (simp add: processTrade_def Let_def newTrade_def)
    then have "journal st' = journal st @ [TradeSaved tradeId False] @ ?ws"
      using j1 j2 by simp
    with ws show ?thesis by blast
  next
    case None
    with assms u ins dist valid have "dec (cashback ?fd) = None"
      and "st' = saveTrade st2 ((newTrade tradeId user volume ?fd tok ch side)
             \<lparr>t_commissionsDistributed := True, t_distributedAt := Some now\<rparr>)"
      by (auto simp: processTrade_def Let_def newTrade_def updateUserStats_def
          split: option.splits)
    then have "journal st' = journal st @ [TradeSaved tradeId False] @ ?ws @ [TradeSaved tradeId True]"
      using j1 j2 by (simp add: saveTrade_def newTrade_def)
    with ws show ?thesis by blast
  qed
qed

lemma reduced_distribution:
  "calculateFeeDistribution bnExample exampleReducedUsers reducedB (Fin 10000) ARBITRUM ''BTC'' =
     \<lparr>traderId = idB, totalFee = Fin 50, cashback = Fin 5,
      commissions = [\<lparr>cb_level = 1, cb_userId = idA, cb_amount = Fin 15, cb_rate = Fin (3 / 10)\<rparr>],
      treasury = Fin (55 / 2), chain = ARBITRUM, token = ''BTC''\<rparr>"
proof -
  have chain: "getReferralChain exampleReducedUsers idB = [chainEntry 1 userA]"
    unfolding getReferralChain_ancestors
    by (simp add: eval_nat_numeral parentOf_def findById_def exampleReducedUsers_def userA_def
        reducedB_def newUser_def example_ids enumerate_Suc_eq)
  have rate: "ancestorRate bnExample exampleReducedUsers (chainEntry 1 userA) = Fin (3 / 10)"
    by (simp add: ancestorRate_def chainEntry_def findById_def exampleReducedUsers_def userA_def
        newUser_def toCustomStructure_def getCommissionRateForLevel_def standardRate_def
        LEVEL_1_def)
  have nw: "\<not> isFeesWaived reducedB"
    by (simp add: isFeesWaived_def reducedB_def newUser_def)
  have pos: "(0::rat) < 10000" by simp
  show ?thesis
    unfolding distribution_nonzero [OF nw pos]
    by (simp add: reducedB_def newUser_def chain rate getFeeRateForTier_def FEE_TIERS_REDUCED_def
        CASHBACK_RATE_def TREASURY_RATE_def commissionEntry_def)
      (simp add: chainEntry_def userA_def newUser_def)
qed

lemma dividedBy_example: "dividedBy (Fin 50) (getFeeRateForTier BASE) = Fin 5000"
  by (simp add: getFeeRateForTier_def FEE_TIERS_BASE_def ROUND_DOWN_def DECIMAL_PLACES_def)

text \<open>
  C9 at a trader of the \<open>REDUCED\<close> tier: B trades the volume "10000", the fee is 50 and the
  row of A records the trade fee 50, as the trade does, but the trade volume 5000, the fee
  divided by the \<open>BASE\<close> rate, where the trade has "10000".
\<close>

theorem tradeVolume_reduced_tier:
  "map t_volume (tradeModel (snd (processTrade bnExample Some idT 0
      (exampleStore exampleReducedUsers) idB ''10000'' ''BTC'' BUY ARBITRUM))) = [''10000'']
   \<and> bnExample ''10000'' = Fin 10000
   \<and> map c_tradeVolume (commissionModel (snd (processTrade bnExample Some idT 0
      (exampleStore exampleReducedUsers) idB ''10000'' ''BTC'' BUY ARBITRUM))) = [Fin 5000]
   \<and> map t_totalFee (tradeModel (snd (processTrade bnExample Some idT 0
      (exampleStore exampleReducedUsers) idB ''10000'' ''BTC'' BUY ARBITRUM))) = [Fin 50]
   \<and> map c_tradeFee (commissionModel (snd (processTrade bnExample Some idT 0
      (exampleStore exampleReducedUsers) idB ''10000'' ''BTC'' BUY ARBITRUM))) = [Fin 50]"
proof -
  have found: "findById exampleReducedUsers idB = Some reducedB"
    by (simp add: findById_def exampleReducedUsers_def userA_def reducedB_def newUser_def
        example_ids)
  show ?thesis
    unfolding processTrade_fresh(3,4) [where bn = bnExample and volume = "''10000''",
        OF valid_ids(1) found example_request]
    by (simp add: example_request newTrade_def reduced_distribution commissionDoc_def
        dividedBy_example)
qed

end
